theory Spec2Isabelle
  imports Complex_Main
begin

section \<open>Values shared by both entry points\<close>

text \<open>
  Everything the two functions throw.  \<open>Error msg\<close> is \<^verbatim>\<open>new Error(msg)\<close>;
  \<open>TypeError\<close> is what JavaScript raises on a property read of \<^verbatim>\<open>undefined\<close>;
  \<open>Thrown k\<close> is a value raised by a collaborator whose code is outside the
  sources (a network stage, a media element's load).
\<close>

datatype error = Error string | TypeError | Thrown nat

text \<open>
  The outcome of awaiting a promise: it is fulfilled with a value, it is rejected,
  or it never settles (there is no timeout anywhere in the code).
\<close>

datatype 'a promise = Fulfilled 'a | Rejected error | Pending

text \<open>
  \<^verbatim>\<open>Promise.all\<close>: fulfilled with all values, in order, once every member is;
  rejected as soon as one member rejects.  Which of several rejections comes first is
  a matter of timing; the model takes the first in array order.
\<close>

fun promise_all :: "'a promise list \<Rightarrow> 'a list promise" where
  "promise_all [] = Fulfilled []"
| "promise_all (p # ps) =
     (case p of
        Rejected e \<Rightarrow> Rejected e
      | Fulfilled v \<Rightarrow>
          (case promise_all ps of
             Fulfilled vs \<Rightarrow> Fulfilled (v # vs)
           | Rejected e \<Rightarrow> Rejected e
           | Pending \<Rightarrow> Pending)
      | Pending \<Rightarrow>
          (case promise_all ps of
             Rejected e \<Rightarrow> Rejected e
           | _ \<Rightarrow> Pending))"

text \<open>A number inside a template literal: its decimal digits.\<close>

fun number_toString :: "nat \<Rightarrow> string" where
  "number_toString n =
     (if n < 10 then [''0123456789'' ! n]
      else number_toString (n div 10) @ [''0123456789'' ! (n mod 10)])"

declare number_toString.simps [simp del]


section \<open>Input data (src/src/toNetInput.ts)\<close>

text \<open>A \<^verbatim>\<open>tf.Tensor\<close>: its shape and the identity of its data.\<close>

record tensor =
  shape :: "nat list"
  dataId :: nat

text \<open>The three media element classes, each with the identity of the DOM node.\<close>

datatype media = HTMLImageElement nat | HTMLVideoElement nat | HTMLCanvasElement nat

text \<open>
  One argument of the input: an element id, a media element, a tensor, or any other
  JavaScript value (\<^verbatim>\<open>null\<close>, a DOM node that is no media element, ...).
\<close>

datatype item = Str string | Media media | Tensor tensor | Other nat

text \<open>
  \<^verbatim>\<open>TNetInput\<close>: a NetInput object (a reference into the heap of NetInput objects),
  a single argument, or an array of arguments.
\<close>

type_synonym ref = nat

datatype TNetInput = InNetInput ref | Single item | Array "item list"

text \<open>
  Modelled from the spec: class \<^verbatim>\<open>NetInput\<close> (src/NetInput is not among the sources).
  The spec has it wrap "either an array of per-item tensors (flag: from array = true) or a
  single tensor (flag = false), plus the managed/caller-owned flag"; the object is
  modelled by what its constructor receives: the wrapped argument, the
  \<^verbatim>\<open>isBatchInput\<close> argument (default \<^verbatim>\<open>false\<close>) and the managed flag, which
  \<^verbatim>\<open>managed()\<close> sets in place.
\<close>

datatype wrapped = Batch tensor | Items "item list"

record NetInput =
  wrappedInputs :: wrapped
  isBatchInput :: bool
  isManaged :: bool

type_synonym heap = "NetInput list"

definition new_NetInput :: "wrapped \<Rightarrow> bool \<Rightarrow> heap \<Rightarrow> ref \<times> heap" where
  "new_NetInput w isBatch h =
     (length h, h @ [\<lparr>wrappedInputs = w, isBatchInput = isBatch, isManaged = False\<rparr>])"

definition managed :: "ref \<Rightarrow> heap \<Rightarrow> ref \<times> heap" where
  "managed r h = (r, h[r := (h ! r)\<lparr>isManaged := True\<rparr>])"

text \<open>
  The collaborators of \<^verbatim>\<open>toNetInput\<close> that live outside the sources
  (\<^verbatim>\<open>document.getElementById\<close> behind \<^verbatim>\<open>resolveInput\<close>, and
  \<^verbatim>\<open>awaitMediaLoaded\<close>) are parameters.
\<close>

record dom =
  getElementById :: "string \<Rightarrow> item"
  awaitMediaLoaded :: "media \<Rightarrow> unit promise"

text \<open>
  Modelled from the spec: \<^verbatim>\<open>resolveInput\<close> (src/utils is not among the sources).
  "Each element is independently resolved (e.g., identifier \<rightarrow> loaded media, or
  already-a-tensor)": an element id is looked up, anything else is left as it is.
\<close>

fun resolveInput :: "dom \<Rightarrow> item \<Rightarrow> item" where
  "resolveInput env (Str s) = getElementById env s"
| "resolveInput env x = x"

text \<open>
  Modelled from the spec: \<^verbatim>\<open>isTensor3D\<close>, \<^verbatim>\<open>isTensor4D\<close> and
  \<^verbatim>\<open>isMediaElement\<close> (src/commons is not among the sources): a tensor of that many
  dimensions, a "media-like" object.
\<close>

fun isTensor :: "item \<Rightarrow> nat \<Rightarrow> bool" where
  "isTensor (Tensor t) n = (length (shape t) = n)"
| "isTensor _ n = False"

definition isTensor3D :: "item \<Rightarrow> bool" where
  "isTensor3D x = isTensor x 3"

definition isTensor4D :: "item \<Rightarrow> bool" where
  "isTensor4D x = isTensor x 4"

fun isMediaElement :: "item \<Rightarrow> bool" where
  "isMediaElement (Media m) = True"
| "isMediaElement _ = False"

fun isArray :: "TNetInput \<Rightarrow> bool" where
  "isArray (Array xs) = True"
| "isArray _ = False"

text \<open>\<^verbatim>\<open>input.reshape(input.shape.slice(1))\<close>: the same data without the leading axis.\<close>

definition reshape_slice1 :: "tensor \<Rightarrow> tensor" where
  "reshape_slice1 t = t\<lparr>shape := tl (shape t)\<rparr>"


section \<open>toNetInput\<close>

definition getIdxHint :: "TNetInput \<Rightarrow> nat \<Rightarrow> string" where
  "getIdxHint inputs idx =
     (if isArray inputs then '' at input index '' @ number_toString idx @ '':'' else '''')"

text \<open>The callback of the second \<^verbatim>\<open>map\<close> (lines 46 to 57), at one element.\<close>

fun toTensor3D :: "TNetInput \<Rightarrow> item \<Rightarrow> nat \<Rightarrow> error + item" where
  "toTensor3D inputs (Tensor t) i =
     (if isTensor4D (Tensor t) then
        (let batchSize = hd (shape t) in
         if batchSize \<noteq> 1 then
           Inl (Error (''toNetInput -'' @ getIdxHint inputs i @ '' tf.Tensor4D with batchSize ''
                  @ number_toString batchSize @ '' passed, but not supported in input array''))
         else Inr (Tensor (reshape_slice1 t)))
      else Inr (Tensor t))"
| "toTensor3D inputs x i = Inr x"

text \<open>That \<^verbatim>\<open>map\<close> over the resolved array: the first throw ends it.\<close>

fun mapToTensor3D :: "TNetInput \<Rightarrow> nat \<Rightarrow> item list \<Rightarrow> error + item list" where
  "mapToTensor3D inputs i [] = Inr []"
| "mapToTensor3D inputs i (x # xs) =
     (case toTensor3D inputs x i of
        Inl e \<Rightarrow> Inl e
      | Inr y \<Rightarrow>
          (case mapToTensor3D inputs (Suc i) xs of
             Inl e \<Rightarrow> Inl e
           | Inr ys \<Rightarrow> Inr (y # ys)))"

text \<open>
  The \<^verbatim>\<open>forEach\<close> of lines 59 to 68 over \<open>inputArray\<close>, reading
  \<open>inputArgArray[i]\<close> (always in range: both arrays have one length).
\<close>

fun checkInputs :: "TNetInput \<Rightarrow> item list \<Rightarrow> nat \<Rightarrow> item list \<Rightarrow> error option" where
  "checkInputs inputs inputArgArray i [] = None"
| "checkInputs inputs inputArgArray i (x # xs) =
     (if \<not> isMediaElement x \<and> \<not> isTensor3D x then
        (case inputArgArray ! i of
           Str s \<Rightarrow>
             Some (Error (''toNetInput -'' @ getIdxHint inputs i
               @ '' string passed, but could not resolve HTMLElement for element id '' @ s))
         | _ \<Rightarrow>
             Some (Error (''toNetInput -'' @ getIdxHint inputs i
               @ '' expected media to be of type HTMLImageElement | HTMLVideoElement | HTMLCanvasElement | tf.Tensor3D, or to be an element id'')))
      else checkInputs inputs inputArgArray (Suc i) xs)"

text \<open>\<^verbatim>\<open>isMediaElement(input) && awaitMediaLoaded(input)\<close>: a non-media element is no wait.\<close>

fun mediaLoaded :: "dom \<Rightarrow> item \<Rightarrow> unit promise" where
  "mediaLoaded env (Media m) = awaitMediaLoaded env m"
| "mediaLoaded env x = Fulfilled ()"

definition afterCreate :: "bool \<Rightarrow> ref \<times> heap \<Rightarrow> ref promise \<times> heap" where
  "afterCreate manageCreatedInput created =
     (case created of (netInput, h) \<Rightarrow>
        (if manageCreatedInput
         then (case managed netInput h of (r, h') \<Rightarrow> (Fulfilled r, h'))
         else (Fulfilled netInput, h)))"

text \<open>\<^verbatim>\<open>Array.isArray(inputs) ? inputs : [inputs]\<close>.\<close>

fun inputArgArray_of :: "TNetInput \<Rightarrow> item list" where
  "inputArgArray_of (Array xs) = xs"
| "inputArgArray_of (Single x) = [x]"
| "inputArgArray_of (InNetInput r) = []"

text \<open>\<^verbatim>\<open>isTensor4D(inputs)\<close> on the whole input: a single tensor of four dimensions.\<close>

fun asTensor4D :: "TNetInput \<Rightarrow> tensor option" where
  "asTensor4D (Single (Tensor t)) = (if isTensor4D (Tensor t) then Some t else None)"
| "asTensor4D _ = None"

text \<open>
  The function itself.  It returns the settled promise and the heap of NetInput
  objects after the call; a throw inside the \<^verbatim>\<open>async\<close> body is a rejection.
\<close>

definition toNetInput :: "dom \<Rightarrow> TNetInput \<Rightarrow> bool \<Rightarrow> heap \<Rightarrow> ref promise \<times> heap" where
  "toNetInput env inputs manageCreatedInput h =
     (case inputs of
        InNetInput r \<Rightarrow> (Fulfilled r, h)
      | _ \<Rightarrow>
        (case asTensor4D inputs of
           Some t \<Rightarrow> afterCreate manageCreatedInput (new_NetInput (Batch t) False h)
         | None \<Rightarrow>
            (let inputArgArray = inputArgArray_of inputs in
             if inputArgArray = [] then
               (Rejected (Error ''toNetInput - empty array passed as input''), h)
             else
               (case mapToTensor3D inputs 0 (map (resolveInput env) inputArgArray) of
                  Inl e \<Rightarrow> (Rejected e, h)
                | Inr inputArray \<Rightarrow>
                   (case checkInputs inputs inputArgArray 0 inputArray of
                      Some e \<Rightarrow> (Rejected e, h)
                    | None \<Rightarrow>
                       (case promise_all (map (mediaLoaded env) inputArray) of
                          Rejected e \<Rightarrow> (Rejected e, h)
                        | Pending \<Rightarrow> (Pending, h)
                        | Fulfilled _ \<Rightarrow>
                            afterCreate manageCreatedInput
                              (new_NetInput (Items inputArray) (isArray inputs) h)))))))"


section \<open>Pipeline data (src/src/allFacesFactory.ts)\<close>

text \<open>
  Modelled from the spec: the classes the pipeline passes around, none of them among
  the sources.  A detection is "one bounding box + confidence score", landmarks are an
  "ordered sequence of 2D points", a descriptor is a "fixed-length numeric vector".
\<close>

datatype Rect = Rect real real real real

datatype FaceDetection = FaceDetection (getScore: real) (getBox: Rect)

datatype FaceLandmarks = FaceLandmarks "(real \<times> real) list"

type_synonym descriptor = "real list"

text \<open>
  \<^verbatim>\<open>new FullFaceDescription(detection, landmarks, descriptor)\<close>.  The third argument
  is \<open>descriptors[i]\<close>, which JavaScript reads as \<^verbatim>\<open>undefined\<close> (\<open>None\<close>) past the
  end of the array without throwing.
\<close>

datatype FullFaceDescription =
  FullFaceDescription (ffd_detection: FaceDetection) (ffd_landmarks: FaceLandmarks)
    (ffd_descriptor: "descriptor option")

definition at_index :: "'a list \<Rightarrow> nat \<Rightarrow> 'a option" where
  "at_index xs i = (if i < length xs then Some (xs ! i) else None)"

text \<open>
  What \<^verbatim>\<open>extractFaceTensors\<close> is asked to cut out: the first call passes the
  detections themselves, the second the aligned boxes.
\<close>

datatype region = OfDetection FaceDetection | OfRect Rect

text \<open>A crop tensor: the engine's handle, and the input and region it was cut from.\<close>

datatype faceTensor = FaceTensor (tensorId: nat) (cropSource: TNetInput) (cropRegion: region)

text \<open>
  The instrumented tensor engine: the next free handle, the handles of the crop tensors
  that are allocated and not yet released, and the log of allocations, releases and
  completed stages.
\<close>

datatype stage = Detector | Landmark | Recognizer

datatype event = Alloc nat | Dispose nat | Done stage

record engine =
  nextId :: nat
  live :: "nat list"
  trace :: "event list"

text \<open>
  The three networks that \<^verbatim>\<open>allFacesFactory\<close> receives, the two
  \<^verbatim>\<open>FaceLandmarks\<close> methods it calls and the outcome of a crop are parameters:
  their code is outside the sources.  \<open>locateFaces\<close> has the declared signature
  \<^verbatim>\<open>locateFaces(input, minConfidence?, maxResults?)\<close>; the pipeline always passes
  \<open>minConfidence\<close>.
\<close>

record nets =
  locateFaces :: "TNetInput \<Rightarrow> real \<Rightarrow> nat option \<Rightarrow> FaceDetection list promise"
  cropOutcome :: "TNetInput \<Rightarrow> region list \<Rightarrow> unit promise"
  detectLandmarks :: "faceTensor list \<Rightarrow> FaceLandmarks list promise"
  align :: "FaceLandmarks \<Rightarrow> Rect \<Rightarrow> Rect"
  shiftByPoint :: "FaceLandmarks \<Rightarrow> Rect \<Rightarrow> FaceLandmarks"
  computeFaceDescriptor :: "faceTensor \<Rightarrow> descriptor promise"

text \<open>
  Modelled from the spec: \<^verbatim>\<open>extractFaceTensors\<close> (src/extractFaceTensors is not among
  the sources).  "For each Detection, extract a tensor cropped to its box from the original
  NetInput", "extract one tensor per aligned box": one freshly allocated tensor per
  region, in order, unless the extraction fails.
\<close>

fun cropAll :: "TNetInput \<Rightarrow> region list \<Rightarrow> engine \<Rightarrow> faceTensor list \<times> engine" where
  "cropAll input [] st = ([], st)"
| "cropAll input (r # rs) st =
     (case cropAll input rs
             (st\<lparr>nextId := Suc (nextId st), live := live st @ [nextId st],
                 trace := trace st @ [Alloc (nextId st)]\<rparr>) of
        (ts, st') \<Rightarrow> (FaceTensor (nextId st) input r # ts, st'))"

definition extractFaceTensors ::
  "nets \<Rightarrow> TNetInput \<Rightarrow> region list \<Rightarrow> engine \<Rightarrow> faceTensor list promise \<times> engine" where
  "extractFaceTensors env input rs st =
     (case cropOutcome env input rs of
        Fulfilled u \<Rightarrow> (case cropAll input rs st of (ts, st') \<Rightarrow> (Fulfilled ts, st'))
      | Rejected e \<Rightarrow> (Rejected e, st)
      | Pending \<Rightarrow> (Pending, st))"

text \<open>
  Modelled from the spec: \<^verbatim>\<open>t.dispose()\<close>, the engine's "release a tensor's underlying
  storage": the handle is no longer live, and the call is logged.
\<close>

definition dispose :: "faceTensor \<Rightarrow> engine \<Rightarrow> engine" where
  "dispose t st =
     st\<lparr>live := removeAll (tensorId t) (live st), trace := trace st @ [Dispose (tensorId t)]\<rparr>"

text \<open>\<^verbatim>\<open>tensors.forEach(t => t.dispose())\<close>.\<close>

fun disposeAll :: "faceTensor list \<Rightarrow> engine \<Rightarrow> engine" where
  "disposeAll [] st = st"
| "disposeAll (t # ts) st = disposeAll ts (dispose t st)"


section \<open>allFacesFactory\<close>

text \<open>
  \<^verbatim>\<open>await\<close>: the rest of the body runs on the fulfilled value; a rejection ends the
  \<^verbatim>\<open>async\<close> function with that rejection, and a promise that never settles leaves it
  suspended.  The engine is as the awaited call left it.
\<close>

definition await ::
  "'a promise \<times> engine \<Rightarrow> ('a \<Rightarrow> engine \<Rightarrow> 'b promise \<times> engine) \<Rightarrow> 'b promise \<times> engine" where
  "await m k =
     (case m of
        (Fulfilled v, st) \<Rightarrow> k v st
      | (Rejected e, st) \<Rightarrow> (Rejected e, st)
      | (Pending, st) \<Rightarrow> (Pending, st))"

text \<open>A call of a network stage: its completion is logged when it fulfils.\<close>

definition run_stage :: "stage \<Rightarrow> 'a promise \<Rightarrow> engine \<Rightarrow> 'a promise \<times> engine" where
  "run_stage s p st =
     (case p of
        Fulfilled v \<Rightarrow> (Fulfilled v, st\<lparr>trace := trace st @ [Done s]\<rparr>)
      | Rejected e \<Rightarrow> (Rejected e, st)
      | Pending \<Rightarrow> (Pending, st))"

text \<open>
  Lines 31 to 33: \<^verbatim>\<open>faceLandmarksByFace.map((landmarks, i) => landmarks.align(detections[i].getBox()))\<close>.
  Past the end of \<open>detections\<close> the read is \<^verbatim>\<open>undefined\<close> and \<^verbatim>\<open>getBox\<close> on it throws.
\<close>

fun alignAll :: "nets \<Rightarrow> FaceDetection list \<Rightarrow> nat \<Rightarrow> FaceLandmarks list \<Rightarrow> error + Rect list" where
  "alignAll env detections i [] = Inr []"
| "alignAll env detections i (landmarks # rest) =
     (if i < length detections then
        (case alignAll env detections (Suc i) rest of
           Inl e \<Rightarrow> Inl e
         | Inr boxes \<Rightarrow> Inr (align env landmarks (getBox (detections ! i)) # boxes))
      else Inl TypeError)"

text \<open>
  Lines 41 to 47: \<^verbatim>\<open>detections.map((detection, i) => new FullFaceDescription(...))\<close>.
  Past the end of \<open>faceLandmarksByFace\<close> the call of \<^verbatim>\<open>shiftByPoint\<close> throws.
\<close>

fun assemble ::
  "nets \<Rightarrow> FaceLandmarks list \<Rightarrow> descriptor list \<Rightarrow> nat \<Rightarrow> FaceDetection list
     \<Rightarrow> error + FullFaceDescription list" where
  "assemble env faceLandmarksByFace descriptors i [] = Inr []"
| "assemble env faceLandmarksByFace descriptors i (detection # rest) =
     (if i < length faceLandmarksByFace then
        (case assemble env faceLandmarksByFace descriptors (Suc i) rest of
           Inl e \<Rightarrow> Inl e
         | Inr fs \<Rightarrow>
             Inr (FullFaceDescription detection
                    (shiftByPoint env (faceLandmarksByFace ! i) (getBox detection))
                    (at_index descriptors i) # fs))
      else Inl TypeError)"

text \<open>
  The function that \<^verbatim>\<open>allFacesFactory(detectionNet, landmarkNet, recognitionNet)\<close>
  returns.  It declares two parameters, \<open>input\<close> and \<open>minConfidence\<close>, and calls
  \<^verbatim>\<open>locateFaces(input, minConfidence)\<close>: \<open>maxResults\<close> is absent there.
\<close>

definition allFaces ::
  "nets \<Rightarrow> TNetInput \<Rightarrow> real \<Rightarrow> engine \<Rightarrow> FullFaceDescription list promise \<times> engine" where
  "allFaces env input minConfidence st0 =
     await (run_stage Detector (locateFaces env input minConfidence None) st0)
       (\<lambda>detections st1.
     await (extractFaceTensors env input (map OfDetection detections) st1)
       (\<lambda>faceTensors st2.
     await (run_stage Landmark (detectLandmarks env faceTensors) st2)
       (\<lambda>faceLandmarksByFace st3.
     (let st4 = disposeAll faceTensors st3 in
      case alignAll env detections 0 faceLandmarksByFace of
        Inl e \<Rightarrow> (Rejected e, st4)
      | Inr alignedFaceBoxes \<Rightarrow>
     await (extractFaceTensors env input (map OfRect alignedFaceBoxes) st4)
       (\<lambda>alignedFaceTensors st5.
     await (run_stage Recognizer
              (promise_all (map (computeFaceDescriptor env) alignedFaceTensors)) st5)
       (\<lambda>descriptors st6.
     (let st7 = disposeAll alignedFaceTensors st6 in
      case assemble env faceLandmarksByFace descriptors 0 detections of
        Inl e \<Rightarrow> (Rejected e, st7)
      | Inr result \<Rightarrow> (Fulfilled result, st7))))))))"

text \<open>
  A JavaScript call may pass more arguments than the function declares; they are
  dropped.  This is the pipeline called as \<^verbatim>\<open>allFaces(input, minConfidence, maxResults)\<close>.
\<close>

definition allFaces_call3 ::
  "nets \<Rightarrow> TNetInput \<Rightarrow> real \<Rightarrow> nat option \<Rightarrow> engine
     \<Rightarrow> FullFaceDescription list promise \<times> engine" where
  "allFaces_call3 env input minConfidence maxResults st = allFaces env input minConfidence st"


section \<open>Vocabulary of the statements\<close>

text \<open>A resolved element on which the callback of line 46 throws: four dimensions, batch size not 1.\<close>

fun unsupportedBatch :: "item \<Rightarrow> bool" where
  "unsupportedBatch (Tensor t) = (isTensor4D (Tensor t) \<and> hd (shape t) \<noteq> 1)"
| "unsupportedBatch x = False"

text \<open>What that callback returns when it does not throw.\<close>

fun dropBatchAxis :: "item \<Rightarrow> item" where
  "dropBatchAxis (Tensor t) =
     (if isTensor4D (Tensor t) then Tensor (reshape_slice1 t) else Tensor t)"
| "dropBatchAxis x = x"

text \<open>The element of \<open>inputArray\<close> that an argument becomes: resolved, then reduced.\<close>

definition element_of :: "dom \<Rightarrow> item \<Rightarrow> item" where
  "element_of env x = dropBatchAxis (resolveInput env x)"

text \<open>The test of line 60, passed.\<close>

definition accepted :: "item \<Rightarrow> bool" where
  "accepted x = (isMediaElement x \<or> isTensor3D x)"

text \<open>The message thrown at lines 62 to 66, from the index hint and the original argument.\<close>

definition typeErrorMessage :: "string \<Rightarrow> item \<Rightarrow> string" where
  "typeErrorMessage hint arg =
     (case arg of
        Str s \<Rightarrow> ''toNetInput -'' @ hint
          @ '' string passed, but could not resolve HTMLElement for element id '' @ s
      | _ \<Rightarrow> ''toNetInput -'' @ hint
          @ '' expected media to be of type HTMLImageElement | HTMLVideoElement | HTMLCanvasElement | tf.Tensor3D, or to be an element id'')"

text \<open>
  A valid argument: none of the three checks rejects it, and if it is a media element
  it finishes loading.
\<close>

definition valid_arg :: "dom \<Rightarrow> item \<Rightarrow> bool" where
  "valid_arg env x =
     (\<not> unsupportedBatch (resolveInput env x) \<and> accepted (element_of env x)
      \<and> mediaLoaded env (element_of env x) = Fulfilled ())"

text \<open>The tensors that a successful \<open>extractFaceTensors\<close> returns when the next free handle is \<open>n\<close>.\<close>

definition crops :: "TNetInput \<Rightarrow> nat \<Rightarrow> region list \<Rightarrow> faceTensor list" where
  "crops input n rs = map (\<lambda>(k, r). FaceTensor k input r) (zip [n..<n + length rs] rs)"

text \<open>The boxes of lines 31 to 33 and the list of lines 41 to 47, when no read is out of range.\<close>

definition alignedBoxes :: "nets \<Rightarrow> FaceDetection list \<Rightarrow> FaceLandmarks list \<Rightarrow> Rect list" where
  "alignedBoxes env ds lms =
     map (\<lambda>(k, l). align env l (getBox (ds ! k))) (zip [0..<length lms] lms)"

definition descriptions ::
  "nets \<Rightarrow> FaceDetection list \<Rightarrow> FaceLandmarks list \<Rightarrow> descriptor list
     \<Rightarrow> FullFaceDescription list" where
  "descriptions env ds lms descs =
     map (\<lambda>(k, d). FullFaceDescription d (shiftByPoint env (lms ! k) (getBox d))
                (Some (descs ! k)))
       (zip [0..<length ds] ds)"


text \<open>
  Every stage succeeds on this call: the detector returns \<open>ds\<close>, both extractions
  succeed, the landmark stage returns \<open>lms\<close> for the raw crops, "one landmark set per
  tensor", and the recognizer returns \<open>descs ! i\<close> for the \<open>i\<close>-th aligned crop.
\<close>

definition stages_succeed ::
  "nets \<Rightarrow> TNetInput \<Rightarrow> real \<Rightarrow> engine \<Rightarrow> FaceDetection list \<Rightarrow> FaceLandmarks list
     \<Rightarrow> descriptor list \<Rightarrow> bool" where
  "stages_succeed env input minConfidence st ds lms descs =
     (locateFaces env input minConfidence None = Fulfilled ds
      \<and> cropOutcome env input (map OfDetection ds) = Fulfilled ()
      \<and> detectLandmarks env (crops input (nextId st) (map OfDetection ds)) = Fulfilled lms
      \<and> length lms = length ds
      \<and> cropOutcome env input (map OfRect (alignedBoxes env ds lms)) = Fulfilled ()
      \<and> map (computeFaceDescriptor env)
            (crops input (nextId st + length ds) (map OfRect (alignedBoxes env ds lms)))
          = map Fulfilled descs)"


section \<open>Example inputs\<close>

definition dom_example :: dom where
  "dom_example =
     \<lparr>getElementById = (\<lambda>s. if s = ''face'' then Media (HTMLImageElement 0) else Other 0),
      awaitMediaLoaded = (\<lambda>m. Fulfilled ())\<rparr>"

definition image_example :: tensor where
  "image_example = \<lparr>shape = [2, 3, 3], dataId = 1\<rparr>"

definition batch1_example :: tensor where
  "batch1_example = \<lparr>shape = [1, 2, 3, 3], dataId = 2\<rparr>"

definition batch2_example :: tensor where
  "batch2_example = \<lparr>shape = [2, 2, 3, 3], dataId = 3\<rparr>"

definition batch3_example :: tensor where
  "batch3_example = \<lparr>shape = [3, 2, 3, 3], dataId = 4\<rparr>"

definition photo_example :: TNetInput where
  "photo_example = Single (Media (HTMLImageElement 0))"

definition detection_a :: FaceDetection where
  "detection_a = FaceDetection (9 / 10) (Rect 5 6 7 8)"

definition detection_b :: FaceDetection where
  "detection_b = FaceDetection (3 / 5) (Rect 1 2 3 4)"

text \<open>
  Three networks for the examples.  The detector returns two faces by descending
  confidence and honours \<open>maxResults\<close> when it is given one; the landmarks of a crop
  record the crop's handle; alignment moves a box one to the right; a landmark set is
  shifted by the box's origin; the descriptor of a crop records the left edge of the
  region it was cut from.
\<close>

definition nets_example :: nets where
  "nets_example =
     \<lparr>locateFaces = (\<lambda>input minConfidence maxResults.
        Fulfilled (case maxResults of
                     None \<Rightarrow> [detection_a, detection_b]
                   | Some k \<Rightarrow> take k [detection_a, detection_b])),
      cropOutcome = (\<lambda>input rs. Fulfilled ()),
      detectLandmarks = (\<lambda>ts. Fulfilled (map (\<lambda>t. FaceLandmarks [(real (tensorId t), 0)]) ts)),
      align = (\<lambda>l r. case r of Rect a b c d \<Rightarrow> Rect (a + 1) b c d),
      shiftByPoint = (\<lambda>l r. case (l, r) of
         (FaceLandmarks ps, Rect a b c d) \<Rightarrow> FaceLandmarks (map (\<lambda>(p, q). (p + a, q + b)) ps)),
      computeFaceDescriptor = (\<lambda>t. Fulfilled
         (case cropRegion t of OfRect (Rect a b c d) \<Rightarrow> [a] | OfDetection d \<Rightarrow> []))\<rparr>"

definition engine_example :: engine where
  "engine_example = \<lparr>nextId = 3, live = [1], trace = []\<rparr>"


section \<open>Auxiliary facts about toNetInput\<close>

lemma afterCreate_new:
  "afterCreate m (new_NetInput w b h) =
     (Fulfilled (length h), h @ [\<lparr>wrappedInputs = w, isBatchInput = b, isManaged = m\<rparr>])"
  by (simp add: afterCreate_def new_NetInput_def managed_def)

lemma toTensor3D_ok:
  "\<not> unsupportedBatch y \<Longrightarrow> toTensor3D inputs y i = Inr (dropBatchAxis y)"
  by (cases y) auto

lemma mapToTensor3D_ok:
  "\<forall>y\<in>set ys. \<not> unsupportedBatch y \<Longrightarrow> mapToTensor3D inputs i ys = Inr (map dropBatchAxis ys)"
  by (induction ys arbitrary: i) (simp_all add: toTensor3D_ok)

lemma mapToTensor3D_first_bad:
  "k < length ys \<Longrightarrow> ys ! k = Tensor t \<Longrightarrow> isTensor4D (Tensor t) \<Longrightarrow> hd (shape t) \<noteq> 1
     \<Longrightarrow> \<forall>j<k. \<not> unsupportedBatch (ys ! j)
     \<Longrightarrow> mapToTensor3D inputs i ys =
           Inl (Error (''toNetInput -'' @ getIdxHint inputs (i + k)
                  @ '' tf.Tensor4D with batchSize '' @ number_toString (hd (shape t))
                  @ '' passed, but not supported in input array''))"
proof (induction ys arbitrary: i k)
  case Nil
  then show ?case by simp
next
  case (Cons y ys)
  show ?case
  proof (cases k)
    case 0
    with Cons.prems show ?thesis by simp
  next
    case (Suc k')
    with Cons.prems have ok: "\<not> unsupportedBatch y" by auto
    from Suc Cons.prems have "mapToTensor3D inputs (Suc i) ys =
        Inl (Error (''toNetInput -'' @ getIdxHint inputs (Suc i + k')
                  @ '' tf.Tensor4D with batchSize '' @ number_toString (hd (shape t))
                  @ '' passed, but not supported in input array''))"
      by (intro Cons.IH) auto
    then show ?thesis using ok Suc by (simp add: toTensor3D_ok)
  qed
qed

lemma checkInputs_ok:
  "\<forall>y\<in>set ys. accepted y \<Longrightarrow> checkInputs inputs args i ys = None"
  by (induction ys arbitrary: i) (auto simp: accepted_def)

lemma checkInputs_first_bad:
  "k < length ys \<Longrightarrow> \<not> accepted (ys ! k) \<Longrightarrow> \<forall>j<k. accepted (ys ! j)
     \<Longrightarrow> checkInputs inputs args i ys =
          Some (Error (typeErrorMessage (getIdxHint inputs (i + k)) (args ! (i + k))))"
proof (induction ys arbitrary: i k)
  case Nil
  then show ?case by simp
next
  case (Cons y ys)
  show ?case
  proof (cases k)
    case 0
    with Cons.prems show ?thesis
      by (auto simp: accepted_def typeErrorMessage_def split: item.splits)
  next
    case (Suc k')
    with Cons.prems have ok: "accepted y" by auto
    from Suc Cons.prems have "checkInputs inputs args (Suc i) ys =
          Some (Error (typeErrorMessage (getIdxHint inputs (Suc i + k')) (args ! (Suc i + k'))))"
      by (intro Cons.IH) auto
    then show ?thesis using ok Suc by (auto simp: accepted_def)
  qed
qed

lemma promise_all_loaded:
  "\<forall>y\<in>set ys. mediaLoaded env y = Fulfilled () \<Longrightarrow>
     promise_all (map (mediaLoaded env) ys) = Fulfilled (map (\<lambda>y. ()) ys)"
  by (induction ys) simp_all

lemma resolved_ok:
  "\<forall>x\<in>set xs. \<not> unsupportedBatch (resolveInput env x) \<Longrightarrow>
     mapToTensor3D inputs 0 (map (resolveInput env) xs) = Inr (map (element_of env) xs)"
  by (simp add: mapToTensor3D_ok element_of_def)

lemma toNetInput_array_valid:
  assumes "xs \<noteq> []" and "\<forall>x\<in>set xs. valid_arg env x"
  shows "toNetInput env (Array xs) m h = (Fulfilled (length h),
     h @ [\<lparr>wrappedInputs = Items (map (element_of env) xs), isBatchInput = True,
            isManaged = m\<rparr>])"
proof -
  have 1: "mapToTensor3D (Array xs) 0 (map (resolveInput env) xs) = Inr (map (element_of env) xs)"
    using assms(2) by (simp add: resolved_ok valid_arg_def)
  have 2: "checkInputs (Array xs) xs 0 (map (element_of env) xs) = None"
    using assms(2) by (simp add: checkInputs_ok valid_arg_def)
  have 3: "promise_all (map (mediaLoaded env \<circ> element_of env) xs) = Fulfilled (map (\<lambda>y. ()) xs)"
    using assms(2) promise_all_loaded [of "map (element_of env) xs" env]
    by (simp add: valid_arg_def comp_def)
  show ?thesis
    using assms(1) by (simp add: toNetInput_def 1 2 3 afterCreate_new)
qed

lemma toNetInput_single_valid:
  assumes "valid_arg env x" and "\<not> isTensor4D x"
  shows "toNetInput env (Single x) m h = (Fulfilled (length h),
     h @ [\<lparr>wrappedInputs = Items [element_of env x], isBatchInput = False, isManaged = m\<rparr>])"
proof -
  have 0: "asTensor4D (Single x) = None"
    using assms(2) by (cases x) simp_all
  have 1: "mapToTensor3D (Single x) 0 [resolveInput env x] = Inr [element_of env x]"
    using assms(1) resolved_ok [of "[x]" env "Single x"] by (simp add: valid_arg_def)
  have 2: "checkInputs (Single x) [x] 0 [element_of env x] = None"
    using assms(1) by (intro checkInputs_ok) (simp add: valid_arg_def)
  have 3: "promise_all [mediaLoaded env (element_of env x)] = Fulfilled [()]"
    using assms(1) by (simp add: valid_arg_def)
  show ?thesis
    by (simp add: toNetInput_def 0 1 2 3 afterCreate_new
        del: mapToTensor3D.simps checkInputs.simps promise_all.simps)
qed

lemma toNetInput_tensor4D:
  "isTensor4D (Tensor t) \<Longrightarrow>
   toNetInput env (Single (Tensor t)) m h = (Fulfilled (length h),
     h @ [\<lparr>wrappedInputs = Batch t, isBatchInput = False, isManaged = m\<rparr>])"
  by (simp add: toNetInput_def afterCreate_new)

lemma toNetInput_array_Fulfilled:
  assumes "toNetInput env (Array xs) m h = (Fulfilled r, h')"
    and "\<forall>x\<in>set xs. \<not> unsupportedBatch (resolveInput env x)"
  shows "r = length h \<and> h' = h @ [\<lparr>wrappedInputs = Items (map (element_of env) xs),
            isBatchInput = True, isManaged = m\<rparr>]"
proof -
  have 1: "mapToTensor3D (Array xs) 0 (map (resolveInput env) xs) = Inr (map (element_of env) xs)"
    using assms(2) by (rule resolved_ok)
  from assms(1) show ?thesis
    by (auto simp: toNetInput_def 1 afterCreate_new Let_def
        split: if_splits option.splits promise.splits)
qed


section \<open>Claims about toNetInput\<close>

text \<open>
  C3.  Given a NetInput object, \<open>toNetInput\<close> returns that very reference and leaves the
  heap as it was, whatever the flag: no object is created, and the object is not marked
  managed.  In particular, applied to its own result it returns that result again.
\<close>

theorem toNetInput_NetInput_identity:
  "toNetInput env (InNetInput n) m h = (Fulfilled n, h)
   \<and> (toNetInput env inputs m h = (Fulfilled r, h')
        \<longrightarrow> toNetInput env (InNetInput r) m' h' = (Fulfilled r, h'))"
  by (simp add: toNetInput_def)

text \<open>The same, on the NetInput made from one image tensor.\<close>

theorem toNetInput_NetInput_identity_witness:
  "toNetInput dom_example (Array [Tensor image_example]) False [] =
     (Fulfilled 0, [\<lparr>wrappedInputs = Items [Tensor image_example], isBatchInput = True,
                     isManaged = False\<rparr>])
   \<and> toNetInput dom_example
        (InNetInput 0) True
        [\<lparr>wrappedInputs = Items [Tensor image_example], isBatchInput = True, isManaged = False\<rparr>]
     = (Fulfilled 0,
        [\<lparr>wrappedInputs = Items [Tensor image_example], isBatchInput = True, isManaged = False\<rparr>])"
proof -
  have run: "toNetInput dom_example (Array [Tensor image_example]) False [] =
     (Fulfilled 0, [\<lparr>wrappedInputs = Items [Tensor image_example], isBatchInput = True,
                     isManaged = False\<rparr>])"
    by (simp add: toNetInput_def image_example_def isTensor4D_def isTensor3D_def
        afterCreate_def new_NetInput_def)
  from toNetInput_NetInput_identity
    [where env = dom_example and inputs = "Array [Tensor image_example]" and m = False
       and h = "[]" and r = 0 and m' = True]
  show ?thesis using run by simp
qed

text \<open>
  C6.  On the empty array \<open>toNetInput\<close> is rejected with the empty-input error, for every
  environment, flag and heap, and no NetInput is created.
\<close>

theorem toNetInput_empty_array:
  "toNetInput env (Array []) m h =
     (Rejected (Error ''toNetInput - empty array passed as input''), h)"
  by (simp add: toNetInput_def)

text \<open>
  C10.  A single tensor of four dimensions is wrapped as it is, whatever its batch size:
  the result holds the tensor itself, is managed exactly when the flag is set, and does
  not depend on the environment (nothing is resolved, checked or awaited).
\<close>

theorem toNetInput_single_tensor4D_unchecked:
  "isTensor4D (Tensor t) \<Longrightarrow>
   toNetInput env (Single (Tensor t)) m h =
     (Fulfilled (length h),
      h @ [\<lparr>wrappedInputs = Batch t, isBatchInput = False, isManaged = m\<rparr>])"
  by (rule toNetInput_tensor4D)

text \<open>A batch of three, in an environment where no media element ever loads.\<close>

theorem toNetInput_single_tensor4D_unchecked_witness:
  "isTensor4D (Tensor batch3_example) \<and> hd (shape batch3_example) = 3 \<and>
   toNetInput (dom_example\<lparr>awaitMediaLoaded := (\<lambda>m. Pending)\<rparr>)
       (Single (Tensor batch3_example)) True [] =
     (Fulfilled 0, [\<lparr>wrappedInputs = Batch batch3_example, isBatchInput = False,
                     isManaged = True\<rparr>])"
proof -
  have h: "isTensor4D (Tensor batch3_example)"
    by (simp add: isTensor4D_def batch3_example_def)
  from toNetInput_single_tensor4D_unchecked [OF h, of _ True "[]"]
  show ?thesis using h by (simp add: batch3_example_def)
qed

lemma valid_examples:
  "valid_arg dom_example (Str ''face'')" "valid_arg dom_example (Tensor image_example)"
  "valid_arg dom_example (Tensor batch1_example)"
  by (simp_all add: valid_arg_def element_of_def dom_example_def accepted_def isTensor4D_def
      isTensor3D_def image_example_def batch1_example_def reshape_slice1_def)

text \<open>
  C7.  A non-empty array of \<open>N\<close> valid arguments yields a new NetInput that wraps the \<open>N\<close>
  resolved elements in input order, with the from-array flag set; a valid single argument
  yields one that wraps exactly that one element, with the flag unset (a single tensor of
  four dimensions is wrapped itself, also with the flag unset).
\<close>

theorem toNetInput_wraps_valid_input:
  "(xs \<noteq> [] \<and> (\<forall>x\<in>set xs. valid_arg env x) \<longrightarrow>
      toNetInput env (Array xs) m h =
        (Fulfilled (length h),
         h @ [\<lparr>wrappedInputs = Items (map (element_of env) xs), isBatchInput = True,
                isManaged = m\<rparr>])
      \<and> length (map (element_of env) xs) = length xs)
   \<and> (valid_arg env x \<and> \<not> isTensor4D x \<longrightarrow>
      toNetInput env (Single x) m h =
        (Fulfilled (length h),
         h @ [\<lparr>wrappedInputs = Items [element_of env x], isBatchInput = False,
                isManaged = m\<rparr>]))
   \<and> (isTensor4D (Tensor t) \<longrightarrow>
      toNetInput env (Single (Tensor t)) m h =
        (Fulfilled (length h),
         h @ [\<lparr>wrappedInputs = Batch t, isBatchInput = False, isManaged = m\<rparr>]))"
  by (simp add: toNetInput_array_valid toNetInput_single_valid toNetInput_tensor4D)

text \<open>An element id, an image tensor and a batch of one, as an array and alone.\<close>

theorem toNetInput_wraps_valid_input_witness:
  "valid_arg dom_example (Str ''face'') \<and> valid_arg dom_example (Tensor image_example)
   \<and> valid_arg dom_example (Tensor batch1_example)
   \<and> toNetInput dom_example (Array [Str ''face'', Tensor image_example, Tensor batch1_example])
        True [] =
       (Fulfilled 0,
        [\<lparr>wrappedInputs = Items [Media (HTMLImageElement 0), Tensor image_example,
             Tensor \<lparr>shape = [2, 3, 3], dataId = 2\<rparr>],
          isBatchInput = True, isManaged = True\<rparr>])
   \<and> \<not> isTensor4D (Str ''face'')
   \<and> toNetInput dom_example (Single (Str ''face'')) False [] =
       (Fulfilled 0,
        [\<lparr>wrappedInputs = Items [Media (HTMLImageElement 0)], isBatchInput = False,
          isManaged = False\<rparr>])
   \<and> isTensor4D (Tensor batch2_example)
   \<and> toNetInput dom_example (Single (Tensor batch2_example)) False [] =
       (Fulfilled 0,
        [\<lparr>wrappedInputs = Batch batch2_example, isBatchInput = False, isManaged = False\<rparr>])"
proof -
  have v: "\<forall>x\<in>set [Str ''face'', Tensor image_example, Tensor batch1_example]. valid_arg dom_example x"
    by (simp add: valid_examples)
  have e: "map (element_of dom_example) [Str ''face'', Tensor image_example, Tensor batch1_example]
     = [Media (HTMLImageElement 0), Tensor image_example, Tensor \<lparr>shape = [2, 3, 3], dataId = 2\<rparr>]"
    "element_of dom_example (Str ''face'') = Media (HTMLImageElement 0)"
    by (simp_all add: element_of_def dom_example_def isTensor4D_def image_example_def
        batch1_example_def reshape_slice1_def)
  have s: "\<not> isTensor4D (Str ''face'')" "isTensor4D (Tensor batch2_example)"
    by (simp_all add: isTensor4D_def batch2_example_def)
  from toNetInput_wraps_valid_input
    [of "[Str ''face'', Tensor image_example, Tensor batch1_example]" dom_example _ "[]"
        "Str ''face''" batch2_example]
  show ?thesis using v s e valid_examples by simp
qed


lemma number_examples:
  "number_toString 0 = ''0''" "number_toString 1 = ''1''" "number_toString (Suc 0) = ''1''"
  "number_toString 2 = ''2''" "number_toString 3 = ''3''"
  by (simp_all add: number_toString.simps [of 0] number_toString.simps [of 1]
      number_toString.simps [of "Suc 0"] number_toString.simps [of 2]
      number_toString.simps [of 3])

text \<open>
  C4, as stated, fails.  In the array of a batch of two followed by a batch of three, the
  second element is a tensor of four dimensions whose batch size is not 1, yet the error
  cites index 0 and batch size 2: the \<^verbatim>\<open>map\<close> throws at the first such element.
\<close>

theorem toNetInput_batch_error_cites_other_index:
  "isTensor4D (Tensor batch3_example) \<and> hd (shape batch3_example) = 3
   \<and> fst (toNetInput dom_example (Array [Tensor batch2_example, Tensor batch3_example]) False [])
     = Rejected (Error
         ''toNetInput - at input index 0: tf.Tensor4D with batchSize 2 passed, but not supported in input array'')
   \<and> fst (toNetInput dom_example (Array [Tensor batch2_example, Tensor batch3_example]) False [])
     \<noteq> Rejected (Error
         ''toNetInput - at input index 1: tf.Tensor4D with batchSize 3 passed, but not supported in input array'')"
  by (simp add: toNetInput_def batch2_example_def batch3_example_def isTensor4D_def
      getIdxHint_def number_examples)

text \<open>
  C4, amended.  If element \<open>k\<close> of an array resolves to a tensor of four dimensions whose
  batch size is not 1, and no earlier element does, \<open>toNetInput\<close> is rejected with the
  invalid-batch-size error that cites index \<open>k\<close> and that batch size, and the heap is
  unchanged.  If no element of the array is such a tensor, every element that resolves to
  a tensor of four dimensions is replaced by the tensor of three dimensions with the
  leading axis dropped, and that is what a fulfilled call wraps at that position.
\<close>

theorem toNetInput_first_unsupported_batch:
  "(k < length xs \<and> resolveInput env (xs ! k) = Tensor t \<and> isTensor4D (Tensor t)
      \<and> hd (shape t) \<noteq> 1 \<and> (\<forall>j<k. \<not> unsupportedBatch (resolveInput env (xs ! j)))
    \<longrightarrow> toNetInput env (Array xs) m h =
          (Rejected (Error (''toNetInput - at input index '' @ number_toString k
              @ '': tf.Tensor4D with batchSize '' @ number_toString (hd (shape t))
              @ '' passed, but not supported in input array'')), h))
   \<and> ((\<forall>x\<in>set xs. \<not> unsupportedBatch (resolveInput env x))
      \<and> k < length xs \<and> resolveInput env (xs ! k) = Tensor t \<and> isTensor4D (Tensor t)
    \<longrightarrow> mapToTensor3D (Array xs) 0 (map (resolveInput env) xs) = Inr (map (element_of env) xs)
        \<and> map (element_of env) xs ! k = Tensor (t\<lparr>shape := tl (shape t)\<rparr>)
        \<and> isTensor3D (map (element_of env) xs ! k)
        \<and> (\<forall>r h'. toNetInput env (Array xs) m h = (Fulfilled r, h')
              \<longrightarrow> wrappedInputs (h' ! r) = Items (map (element_of env) xs)))"
proof (intro conjI impI)
  assume a: "k < length xs \<and> resolveInput env (xs ! k) = Tensor t \<and> isTensor4D (Tensor t)
      \<and> hd (shape t) \<noteq> 1 \<and> (\<forall>j<k. \<not> unsupportedBatch (resolveInput env (xs ! j)))"
  then have ne: "xs \<noteq> []" by auto
  have "mapToTensor3D (Array xs) 0 (map (resolveInput env) xs) =
      Inl (Error (''toNetInput -'' @ getIdxHint (Array xs) (0 + k)
                  @ '' tf.Tensor4D with batchSize '' @ number_toString (hd (shape t))
                  @ '' passed, but not supported in input array''))"
    using a by (intro mapToTensor3D_first_bad) auto
  then show "toNetInput env (Array xs) m h =
          (Rejected (Error (''toNetInput - at input index '' @ number_toString k
              @ '': tf.Tensor4D with batchSize '' @ number_toString (hd (shape t))
              @ '' passed, but not supported in input array'')), h)"
    using ne by (simp add: toNetInput_def getIdxHint_def)
next
  assume b: "(\<forall>x\<in>set xs. \<not> unsupportedBatch (resolveInput env x))
      \<and> k < length xs \<and> resolveInput env (xs ! k) = Tensor t \<and> isTensor4D (Tensor t)"
  then show "mapToTensor3D (Array xs) 0 (map (resolveInput env) xs) = Inr (map (element_of env) xs)"
    by (simp add: resolved_ok)
  from b show el: "map (element_of env) xs ! k = Tensor (t\<lparr>shape := tl (shape t)\<rparr>)"
    by (simp add: element_of_def reshape_slice1_def)
  from b have "length (shape t) = 4" by (simp add: isTensor4D_def)
  then show "isTensor3D (map (element_of env) xs ! k)"
    unfolding el by (simp add: isTensor3D_def)
  show "\<forall>r h'. toNetInput env (Array xs) m h = (Fulfilled r, h')
              \<longrightarrow> wrappedInputs (h' ! r) = Items (map (element_of env) xs)"
  proof (intro allI impI)
    fix r h'
    assume "toNetInput env (Array xs) m h = (Fulfilled r, h')"
    from toNetInput_array_Fulfilled [OF this] b show "wrappedInputs (h' ! r) = Items (map (element_of env) xs)"
      by simp
  qed
qed

text \<open>
  C5, as stated, fails.  In the array of a value that is neither media nor tensor followed
  by a batch of two, the first element resolves to neither a media element nor a tensor of
  three dimensions, yet the call is rejected with the invalid-batch-size error for index
  1, not with a type error: the \<^verbatim>\<open>map\<close> of lines 44 to 57 runs over the whole array
  before the \<^verbatim>\<open>forEach\<close> of line 59 starts.
\<close>

theorem toNetInput_type_error_counterexample:
  "\<not> isMediaElement (resolveInput dom_example (Other 0))
   \<and> \<not> isTensor3D (resolveInput dom_example (Other 0))
   \<and> fst (toNetInput dom_example (Array [Other 0, Tensor batch2_example]) False [])
     = Rejected (Error
         ''toNetInput - at input index 1: tf.Tensor4D with batchSize 2 passed, but not supported in input array'')
   \<and> fst (toNetInput dom_example (Array [Other 0, Tensor batch2_example]) False [])
     \<noteq> Rejected (Error
         ''toNetInput - at input index 0: expected media to be of type HTMLImageElement | HTMLVideoElement | HTMLCanvasElement | tf.Tensor3D, or to be an element id'')"
  by (simp add: toNetInput_def batch2_example_def isTensor4D_def isTensor3D_def
      getIdxHint_def number_examples)

lemma toNetInput_rejects_unaccepted:
  assumes "asTensor4D inputs = None" and "\<forall>r. inputs \<noteq> InNetInput r"
    and "\<forall>x\<in>set (inputArgArray_of inputs). \<not> unsupportedBatch (resolveInput env x)"
    and "k < length (inputArgArray_of inputs)"
    and "\<not> accepted (element_of env (inputArgArray_of inputs ! k))"
    and "\<forall>j<k. accepted (element_of env (inputArgArray_of inputs ! j))"
  shows "toNetInput env inputs m h =
     (Rejected (Error (typeErrorMessage (getIdxHint inputs k) (inputArgArray_of inputs ! k))), h)"
proof -
  define args where "args = inputArgArray_of inputs"
  have ne: "args \<noteq> []" using assms(4) by (auto simp: args_def)
  have 1: "mapToTensor3D inputs 0 (map (resolveInput env) args) = Inr (map (element_of env) args)"
    using assms(3) unfolding args_def by (rule resolved_ok)
  have 2: "checkInputs inputs args 0 (map (element_of env) args) =
      Some (Error (typeErrorMessage (getIdxHint inputs (0 + k)) (args ! (0 + k))))"
    using assms(4,5,6) unfolding args_def by (intro checkInputs_first_bad) auto
  have "toNetInput env inputs m h =
      (if args = [] then (Rejected (Error ''toNetInput - empty array passed as input''), h)
       else (case mapToTensor3D inputs 0 (map (resolveInput env) args) of
               Inl e \<Rightarrow> (Rejected e, h)
             | Inr inputArray \<Rightarrow>
                (case checkInputs inputs args 0 inputArray of
                   Some e \<Rightarrow> (Rejected e, h)
                 | None \<Rightarrow>
                    (case promise_all (map (mediaLoaded env) inputArray) of
                       Rejected e \<Rightarrow> (Rejected e, h)
                     | Pending \<Rightarrow> (Pending, h)
                     | Fulfilled u \<Rightarrow>
                         afterCreate m (new_NetInput (Items inputArray) (isArray inputs) h)))))"
    using assms(1,2) unfolding args_def by (cases inputs) (auto simp add: toNetInput_def split: sum.splits option.splits)
  then show ?thesis
    by (simp add: ne 1 2 flip: args_def)
qed

text \<open>
  C5, amended.  Let no element resolve to a tensor of four dimensions with a batch size
  other than 1, and let \<open>k\<close> be the first position whose element is, after resolution and
  reduction, neither a media element nor a tensor of three dimensions.  Then the call is
  rejected, with the heap unchanged: when the original argument is a string, with the
  message that cites this identifier, otherwise with the message that lists the accepted
  types.  For an array the message carries \<open>at input index k:\<close>; for a single argument
  (not itself a tensor of four dimensions) it carries no index.
\<close>

theorem toNetInput_type_error:
  "((\<forall>x\<in>set xs. \<not> unsupportedBatch (resolveInput env x))
      \<and> k < length xs \<and> \<not> accepted (element_of env (xs ! k))
      \<and> (\<forall>j<k. accepted (element_of env (xs ! j)))
    \<longrightarrow> toNetInput env (Array xs) m h =
         (Rejected (Error (case xs ! k of
            Str s \<Rightarrow> ''toNetInput - at input index '' @ number_toString k
              @ '': string passed, but could not resolve HTMLElement for element id '' @ s
          | _ \<Rightarrow> ''toNetInput - at input index '' @ number_toString k
              @ '': expected media to be of type HTMLImageElement | HTMLVideoElement | HTMLCanvasElement | tf.Tensor3D, or to be an element id'')), h))
   \<and> (\<not> isTensor4D x \<and> \<not> unsupportedBatch (resolveInput env x)
      \<and> \<not> accepted (element_of env x)
    \<longrightarrow> toNetInput env (Single x) m h =
         (Rejected (Error (case x of
            Str s \<Rightarrow>
              ''toNetInput - string passed, but could not resolve HTMLElement for element id '' @ s
          | _ \<Rightarrow> ''toNetInput - expected media to be of type HTMLImageElement | HTMLVideoElement | HTMLCanvasElement | tf.Tensor3D, or to be an element id'')), h))"
proof (intro conjI impI)
  assume a: "(\<forall>x\<in>set xs. \<not> unsupportedBatch (resolveInput env x))
      \<and> k < length xs \<and> \<not> accepted (element_of env (xs ! k))
      \<and> (\<forall>j<k. accepted (element_of env (xs ! j)))"
  have "toNetInput env (Array xs) m h =
     (Rejected (Error (typeErrorMessage (getIdxHint (Array xs) k) (xs ! k))), h)"
    using a toNetInput_rejects_unaccepted [of "Array xs" env k m h] by simp
  then show "toNetInput env (Array xs) m h =
         (Rejected (Error (case xs ! k of
            Str s \<Rightarrow> ''toNetInput - at input index '' @ number_toString k
              @ '': string passed, but could not resolve HTMLElement for element id '' @ s
          | _ \<Rightarrow> ''toNetInput - at input index '' @ number_toString k
              @ '': expected media to be of type HTMLImageElement | HTMLVideoElement | HTMLCanvasElement | tf.Tensor3D, or to be an element id'')), h)"
    by (simp add: typeErrorMessage_def getIdxHint_def split: item.splits)
next
  assume b: "\<not> isTensor4D x \<and> \<not> unsupportedBatch (resolveInput env x)
      \<and> \<not> accepted (element_of env x)"
  then have 0: "asTensor4D (Single x) = None" by (cases x) simp_all
  have "toNetInput env (Single x) m h =
     (Rejected (Error (typeErrorMessage (getIdxHint (Single x) 0) x)), h)"
    using b 0 toNetInput_rejects_unaccepted [of "Single x" env 0 m h] by simp
  then show "toNetInput env (Single x) m h =
         (Rejected (Error (case x of
            Str s \<Rightarrow>
              ''toNetInput - string passed, but could not resolve HTMLElement for element id '' @ s
          | _ \<Rightarrow> ''toNetInput - expected media to be of type HTMLImageElement | HTMLVideoElement | HTMLCanvasElement | tf.Tensor3D, or to be an element id'')), h)"
    by (simp add: typeErrorMessage_def getIdxHint_def split: item.splits)
qed

lemma resolve_examples:
  "getElementById dom_example ''face'' = Media (HTMLImageElement 0)"
  "getElementById dom_example ''nose'' = Other 0"
  by (simp_all add: dom_example_def)

lemma element_examples:
  "element_of dom_example (Str ''face'') = Media (HTMLImageElement 0)"
  "element_of dom_example (Str ''nose'') = Other 0"
  "element_of dom_example (Other 7) = Other 7"
  "element_of dom_example (Tensor image_example) = Tensor image_example"
  "element_of dom_example (Tensor batch1_example) = Tensor \<lparr>shape = [2, 3, 3], dataId = 2\<rparr>"
  by (simp_all add: element_of_def dom_example_def isTensor4D_def image_example_def
      batch1_example_def reshape_slice1_def)

lemma tensor_examples:
  "isTensor3D (Tensor image_example)" "\<not> isTensor4D (Tensor image_example)"
  "isTensor4D (Tensor batch1_example)" "hd (shape batch1_example) = 1"
  "isTensor4D (Tensor batch2_example)" "hd (shape batch2_example) = 2"
  "isTensor4D (Tensor batch3_example)" "hd (shape batch3_example) = 3"
  by (simp_all add: isTensor3D_def isTensor4D_def image_example_def batch1_example_def
      batch2_example_def batch3_example_def)

text \<open>
  A batch of three at index 2 after two valid elements; and a batch of one at index 1,
  reduced to three dimensions.
\<close>

theorem toNetInput_first_unsupported_batch_witness:
  "toNetInput dom_example (Array [Str ''face'', Tensor batch1_example, Tensor batch3_example])
       False [] =
     (Rejected (Error
        ''toNetInput - at input index 2: tf.Tensor4D with batchSize 3 passed, but not supported in input array''),
      [])
   \<and> mapToTensor3D (Array [Str ''face'', Tensor batch1_example]) 0
        (map (resolveInput dom_example) [Str ''face'', Tensor batch1_example]) =
       Inr [Media (HTMLImageElement 0), Tensor \<lparr>shape = [2, 3, 3], dataId = 2\<rparr>]
   \<and> isTensor3D (Tensor \<lparr>shape = [2, 3, 3], dataId = 2\<rparr>)
   \<and> toNetInput dom_example (Array [Str ''face'', Tensor batch1_example]) True [] =
       (Fulfilled 0,
        [\<lparr>wrappedInputs =
            Items [Media (HTMLImageElement 0), Tensor \<lparr>shape = [2, 3, 3], dataId = 2\<rparr>],
          isBatchInput = True, isManaged = True\<rparr>])"
proof -
  have h1: "(2::nat) < length [Str ''face'', Tensor batch1_example, Tensor batch3_example]
      \<and> resolveInput dom_example
           ([Str ''face'', Tensor batch1_example, Tensor batch3_example] ! 2)
         = Tensor batch3_example
      \<and> isTensor4D (Tensor batch3_example) \<and> hd (shape batch3_example) \<noteq> 1
      \<and> (\<forall>j<2. \<not> unsupportedBatch (resolveInput dom_example
             ([Str ''face'', Tensor batch1_example, Tensor batch3_example] ! j)))"
    by (simp add: tensor_examples resolve_examples numeral_2_eq_2 less_Suc_eq del: unsupportedBatch.simps)
      (auto simp: tensor_examples)
  have h2: "(\<forall>x\<in>set [Str ''face'', Tensor batch1_example].
               \<not> unsupportedBatch (resolveInput dom_example x))
      \<and> (1::nat) < length [Str ''face'', Tensor batch1_example]
      \<and> resolveInput dom_example ([Str ''face'', Tensor batch1_example] ! 1) = Tensor batch1_example
      \<and> isTensor4D (Tensor batch1_example)"
    by (simp add: tensor_examples resolve_examples)
  have run: "toNetInput dom_example (Array [Str ''face'', Tensor batch1_example]) True [] =
       (Fulfilled 0,
        [\<lparr>wrappedInputs =
            Items [Media (HTMLImageElement 0), Tensor \<lparr>shape = [2, 3, 3], dataId = 2\<rparr>],
          isBatchInput = True, isManaged = True\<rparr>])"
    using toNetInput_array_valid [of "[Str ''face'', Tensor batch1_example]" dom_example True "[]"]
    by (simp add: valid_examples element_examples)
  from toNetInput_first_unsupported_batch
    [where env = dom_example and k = 2 and t = batch3_example and m = False and h = "[]"
       and xs = "[Str ''face'', Tensor batch1_example, Tensor batch3_example]"] h1
  have c1: "toNetInput dom_example
       (Array [Str ''face'', Tensor batch1_example, Tensor batch3_example]) False [] =
     (Rejected (Error
        ''toNetInput - at input index 2: tf.Tensor4D with batchSize 3 passed, but not supported in input array''),
      [])"
    by (simp add: number_examples tensor_examples)
  have e2: "map (element_of dom_example) [Str ''face'', Tensor batch1_example] =
      [Media (HTMLImageElement 0), Tensor \<lparr>shape = [2, 3, 3], dataId = 2\<rparr>]"
    by (simp add: element_examples)
  note r = toNetInput_first_unsupported_batch
    [where env = dom_example and k = 1 and t = batch1_example and m = True and h = "[]"
       and xs = "[Str ''face'', Tensor batch1_example]", THEN conjunct2, THEN mp, OF h2]
  have c2: "mapToTensor3D (Array [Str ''face'', Tensor batch1_example]) 0
        (map (resolveInput dom_example) [Str ''face'', Tensor batch1_example]) =
       Inr [Media (HTMLImageElement 0), Tensor \<lparr>shape = [2, 3, 3], dataId = 2\<rparr>]"
    using r [THEN conjunct1] unfolding e2 .
  have c3: "isTensor3D (Tensor \<lparr>shape = [2, 3, 3], dataId = 2\<rparr>)"
    using r [THEN conjunct2, THEN conjunct2, THEN conjunct1] unfolding e2 by simp
  from c1 c2 c3 run show ?thesis by (simp del: mapToTensor3D.simps)
qed

text \<open>Both messages, with the index for an array and without it for a single argument.\<close>

theorem toNetInput_type_error_witness:
  "toNetInput dom_example (Array [Str ''face'', Str ''nose'', Other 7]) False [] =
     (Rejected (Error
        ''toNetInput - at input index 1: string passed, but could not resolve HTMLElement for element id nose''),
      [])
   \<and> toNetInput dom_example (Single (Other 7)) False [] =
     (Rejected (Error
        ''toNetInput - expected media to be of type HTMLImageElement | HTMLVideoElement | HTMLCanvasElement | tf.Tensor3D, or to be an element id''),
      [])
   \<and> toNetInput dom_example (Array [Tensor image_example, Other 7]) False [] =
     (Rejected (Error
        ''toNetInput - at input index 1: expected media to be of type HTMLImageElement | HTMLVideoElement | HTMLCanvasElement | tf.Tensor3D, or to be an element id''),
      [])
   \<and> toNetInput dom_example (Single (Str ''nose'')) False [] =
     (Rejected (Error
        ''toNetInput - string passed, but could not resolve HTMLElement for element id nose''),
      [])"
proof -
  have acc: "accepted (Media (HTMLImageElement 0))" "accepted (Tensor image_example)"
    "\<not> accepted (Other 0)" "\<not> accepted (Other 7)"
    by (simp_all add: accepted_def isTensor3D_def image_example_def)
  have h1: "(\<forall>x\<in>set [Str ''face'', Str ''nose'', Other 7].
               \<not> unsupportedBatch (resolveInput dom_example x))
      \<and> (1::nat) < length [Str ''face'', Str ''nose'', Other 7]
      \<and> \<not> accepted (element_of dom_example ([Str ''face'', Str ''nose'', Other 7] ! 1))
      \<and> (\<forall>j<1. accepted (element_of dom_example ([Str ''face'', Str ''nose'', Other 7] ! j)))"
    by (simp add: resolve_examples element_examples acc)
  have h2: "\<not> isTensor4D (Other 7) \<and> \<not> unsupportedBatch (resolveInput dom_example (Other 7))
      \<and> \<not> accepted (element_of dom_example (Other 7))"
    by (simp add: isTensor4D_def element_examples acc)
  have h3: "(\<forall>x\<in>set [Tensor image_example, Other 7].
               \<not> unsupportedBatch (resolveInput dom_example x))
      \<and> (1::nat) < length [Tensor image_example, Other 7]
      \<and> \<not> accepted (element_of dom_example ([Tensor image_example, Other 7] ! 1))
      \<and> (\<forall>j<1. accepted (element_of dom_example ([Tensor image_example, Other 7] ! j)))"
    by (simp add: tensor_examples element_examples acc)
  have h4: "\<not> isTensor4D (Str ''nose'')
      \<and> \<not> unsupportedBatch (resolveInput dom_example (Str ''nose''))
      \<and> \<not> accepted (element_of dom_example (Str ''nose''))"
    by (simp add: isTensor4D_def resolve_examples element_examples acc)
  from toNetInput_type_error
    [where env = dom_example and k = 1 and m = False and h = "[]"
       and xs = "[Str ''face'', Str ''nose'', Other 7]" and x = "Other 7"] h1 h2
  have c1: "toNetInput dom_example (Array [Str ''face'', Str ''nose'', Other 7]) False [] =
     (Rejected (Error
        ''toNetInput - at input index 1: string passed, but could not resolve HTMLElement for element id nose''),
      [])
   \<and> toNetInput dom_example (Single (Other 7)) False [] =
     (Rejected (Error
        ''toNetInput - expected media to be of type HTMLImageElement | HTMLVideoElement | HTMLCanvasElement | tf.Tensor3D, or to be an element id''),
      [])"
    by (simp add: number_examples)
  from toNetInput_type_error
    [where env = dom_example and k = 1 and m = False and h = "[]"
       and xs = "[Tensor image_example, Other 7]" and x = "Str ''nose''"] h3 h4
  have c2: "toNetInput dom_example (Array [Tensor image_example, Other 7]) False [] =
     (Rejected (Error
        ''toNetInput - at input index 1: expected media to be of type HTMLImageElement | HTMLVideoElement | HTMLCanvasElement | tf.Tensor3D, or to be an element id''),
      [])
   \<and> toNetInput dom_example (Single (Str ''nose'')) False [] =
     (Rejected (Error
        ''toNetInput - string passed, but could not resolve HTMLElement for element id nose''),
      [])"
    by (simp add: number_examples)
  from c1 c2 show ?thesis by simp
qed


section \<open>Auxiliary facts about allFaces\<close>

lemma cropAll_eq:
  "cropAll input rs st =
     (crops input (nextId st) rs,
      st\<lparr>nextId := nextId st + length rs,
         live := live st @ [nextId st..<nextId st + length rs],
         trace := trace st @ map Alloc [nextId st..<nextId st + length rs]\<rparr>)"
proof (induction rs arbitrary: st)
  case Nil
  show ?case by (simp add: crops_def)
next
  case (Cons r rs)
  have upt: "[nextId st..<Suc (nextId st + length rs)] =
      nextId st # [Suc (nextId st)..<Suc (nextId st + length rs)]"
    by (rule upt_conv_Cons) simp
  show ?case
    by (simp add: Cons.IH crops_def upt del: upt_Suc)
qed

lemma disposeAll_eq:
  "disposeAll ts st =
     st\<lparr>live := filter (\<lambda>i. i \<notin> tensorId ` set ts) (live st),
        trace := trace st @ map (\<lambda>t. Dispose (tensorId t)) ts\<rparr>"
proof (induction ts arbitrary: st)
  case Nil
  show ?case by simp
next
  case (Cons t ts)
  have "filter (\<lambda>i. i \<notin> tensorId ` set ts) (removeAll (tensorId t) (live st))
      = filter (\<lambda>i. i \<notin> tensorId ` set (t # ts)) (live st)"
    by (induction "live st") (auto simp: removeAll_filter_not_eq intro: filter_cong)
  then show ?case
    by (simp add: Cons.IH dispose_def)
qed

lemma tensorId_crops: "map tensorId (crops input n rs) = [n..<n + length rs]"
proof -
  have "map tensorId (crops input n rs) = map fst (zip [n..<n + length rs] rs)"
    by (simp add: crops_def case_prod_unfold comp_def)
  then show ?thesis by simp
qed

lemma length_crops: "length (crops input n rs) = length rs"
  by (simp add: crops_def)

lemma alignAll_eq:
  "i + length rest \<le> length ds \<Longrightarrow>
     alignAll env ds i rest =
       Inr (map (\<lambda>(k, l). align env l (getBox (ds ! k))) (zip [i..<i + length rest] rest))"
proof (induction rest arbitrary: i)
  case Nil
  show ?case by simp
next
  case (Cons l rest)
  have upt: "[i..<Suc (i + length rest)] = i # [Suc i..<Suc (i + length rest)]"
    by (rule upt_conv_Cons) simp
  from Cons.prems have "Suc i + length rest \<le> length ds" by simp
  from Cons.IH [OF this] Cons.prems show ?case
    by (simp add: upt del: upt_Suc)
qed

lemma assemble_eq:
  "i + length rest \<le> length lms \<Longrightarrow> i + length rest \<le> length descs \<Longrightarrow>
     assemble env lms descs i rest =
       Inr (map (\<lambda>(k, d). FullFaceDescription d (shiftByPoint env (lms ! k) (getBox d))
                  (Some (descs ! k))) (zip [i..<i + length rest] rest))"
proof (induction rest arbitrary: i)
  case Nil
  show ?case by simp
next
  case (Cons d rest)
  have upt: "[i..<Suc (i + length rest)] = i # [Suc i..<Suc (i + length rest)]"
    by (rule upt_conv_Cons) simp
  from Cons.prems have "Suc i + length rest \<le> length lms" "Suc i + length rest \<le> length descs"
    by simp_all
  from Cons.IH [OF this] Cons.prems show ?case
    by (simp add: upt at_index_def del: upt_Suc)
qed

lemma promise_all_Fulfilled: "promise_all (map Fulfilled vs) = Fulfilled vs"
  by (induction vs) simp_all

lemma length_alignedBoxes: "length (alignedBoxes env ds lms) = length lms"
  by (simp add: alignedBoxes_def)

lemma extractFaceTensors_ok:
  "cropOutcome env input rs = Fulfilled u \<Longrightarrow>
   extractFaceTensors env input rs st =
     (Fulfilled (crops input (nextId st) rs),
      st\<lparr>nextId := nextId st + length rs,
         live := live st @ [nextId st..<nextId st + length rs],
         trace := trace st @ map Alloc [nextId st..<nextId st + length rs]\<rparr>)"
  by (simp add: extractFaceTensors_def cropAll_eq)

lemma disposeAll_crops:
  "disposeAll (crops input n rs) st =
     st\<lparr>live := filter (\<lambda>i. i \<notin> {n..<n + length rs}) (live st),
        trace := trace st @ map Dispose [n..<n + length rs]\<rparr>"
proof -
  have "set (map tensorId (crops input n rs)) = {n..<n + length rs}"
    by (simp only: tensorId_crops atLeastLessThan_upt)
  then have 1: "tensorId ` set (crops input n rs) = {n..<n + length rs}"
    by (simp only: set_map)
  have "map Dispose (map tensorId (crops input n rs)) = map Dispose [n..<n + length rs]"
    by (simp only: tensorId_crops)
  then have 2: "map (\<lambda>t. Dispose (tensorId t)) (crops input n rs) = map Dispose [n..<n + length rs]"
    by (simp add: comp_def)
  show ?thesis by (simp only: disposeAll_eq 1 2)
qed


lemma nth_crops:
  "i < length rs \<Longrightarrow> crops input n rs ! i = FaceTensor (n + i) input (rs ! i)"
  by (simp add: crops_def)

lemma nth_alignedBoxes:
  "i < length lms \<Longrightarrow> alignedBoxes env ds lms ! i = align env (lms ! i) (getBox (ds ! i))"
  by (simp add: alignedBoxes_def)

lemma nth_descriptions:
  "i < length ds \<Longrightarrow> descriptions env ds lms descs ! i =
     FullFaceDescription (ds ! i) (shiftByPoint env (lms ! i) (getBox (ds ! i)))
       (Some (descs ! i))"
  by (simp add: descriptions_def)

lemma length_descriptions: "length (descriptions env ds lms descs) = length ds"
  by (simp add: descriptions_def)

lemma detections_of_descriptions: "map ffd_detection (descriptions env ds lms descs) = ds"
  by (rule nth_equalityI) (simp_all add: length_descriptions nth_descriptions)

lemma allFaces_until_landmarks:
  assumes det: "locateFaces env input minConfidence None = Fulfilled ds"
    and crop1: "cropOutcome env input (map OfDetection ds) = Fulfilled ()"
  shows "allFaces env input minConfidence st =
     await (run_stage Landmark
              (detectLandmarks env (crops input (nextId st) (map OfDetection ds)))
              (st\<lparr>nextId := nextId st + length ds,
                  live := live st @ [nextId st..<nextId st + length ds],
                  trace := trace st @ [Done Detector]
                     @ map Alloc [nextId st..<nextId st + length ds]\<rparr>))
       (\<lambda>faceLandmarksByFace st3.
     (let st4 = disposeAll (crops input (nextId st) (map OfDetection ds)) st3 in
      case alignAll env ds 0 faceLandmarksByFace of
        Inl e \<Rightarrow> (Rejected e, st4)
      | Inr alignedFaceBoxes \<Rightarrow>
     await (extractFaceTensors env input (map OfRect alignedFaceBoxes) st4)
       (\<lambda>alignedFaceTensors st5.
     await (run_stage Recognizer
              (promise_all (map (computeFaceDescriptor env) alignedFaceTensors)) st5)
       (\<lambda>descriptors st6.
     (let st7 = disposeAll alignedFaceTensors st6 in
      case assemble env faceLandmarksByFace descriptors 0 ds of
        Inl e \<Rightarrow> (Rejected e, st7)
      | Inr result \<Rightarrow> (Fulfilled result, st7))))))"
proof -
  define st1 where "st1 = st\<lparr>trace := trace st @ [Done Detector]\<rparr>"
  have s1: "run_stage Detector (locateFaces env input minConfidence None) st = (Fulfilled ds, st1)"
    by (simp add: run_stage_def det st1_def)
  have s2: "extractFaceTensors env input (map OfDetection ds) st1 =
      (Fulfilled (crops input (nextId st) (map OfDetection ds)),
       st\<lparr>nextId := nextId st + length ds,
          live := live st @ [nextId st..<nextId st + length ds],
          trace := trace st @ [Done Detector] @ map Alloc [nextId st..<nextId st + length ds]\<rparr>)"
    using extractFaceTensors_ok [OF crop1, of st1] by (simp add: st1_def)
  show ?thesis
    unfolding allFaces_def by (simp only: s1 s2 await_def prod.case promise.case)
qed

lemma drop_fresh:
  "filter (\<lambda>i. i \<notin> {n..<m}) (xs @ [n..<m]) = filter (\<lambda>i. i \<notin> {n..<m::nat}) xs"
  by (simp add: filter_empty_conv)

lemma keep_older:
  "\<forall>i\<in>set xs. i < (n::nat) \<Longrightarrow> filter (\<lambda>i. i \<notin> {n..<m}) xs = xs"
proof (induction xs)
  case Nil
  show ?case by simp
next
  case (Cons a xs)
  then have "a < n" and "filter (\<lambda>i. i \<notin> {n..<m}) xs = xs" by simp_all
  then show ?case by simp
qed

lemma allFaces_until_descriptors:
  assumes det: "locateFaces env input minConfidence None = Fulfilled ds"
    and crop1: "cropOutcome env input (map OfDetection ds) = Fulfilled ()"
    and lm: "detectLandmarks env (crops input (nextId st) (map OfDetection ds)) = Fulfilled lms"
    and len: "length lms = length ds"
    and crop2: "cropOutcome env input (map OfRect (alignedBoxes env ds lms)) = Fulfilled ()"
  shows "allFaces env input minConfidence st =
     await (run_stage Recognizer
              (promise_all (map (computeFaceDescriptor env)
                 (crops input (nextId st + length ds) (map OfRect (alignedBoxes env ds lms)))))
              (st\<lparr>nextId := nextId st + length ds + length ds,
                  live := filter (\<lambda>i. i \<notin> {nextId st..<nextId st + length ds}) (live st)
                     @ [nextId st + length ds..<nextId st + length ds + length ds],
                  trace := trace st @ [Done Detector]
                     @ map Alloc [nextId st..<nextId st + length ds]
                     @ [Done Landmark]
                     @ map Dispose [nextId st..<nextId st + length ds]
                     @ map Alloc [nextId st + length ds..<nextId st + length ds + length ds]\<rparr>))
       (\<lambda>descriptors st6.
     (let st7 = disposeAll
                  (crops input (nextId st + length ds) (map OfRect (alignedBoxes env ds lms))) st6 in
      case assemble env lms descriptors 0 ds of
        Inl e \<Rightarrow> (Rejected e, st7)
      | Inr result \<Rightarrow> (Fulfilled result, st7)))"
proof -
  define n where "n = nextId st"
  define k where "k = length ds"
  define st2 where "st2 = st\<lparr>nextId := n + k, live := live st @ [n..<n + k],
      trace := trace st @ [Done Detector] @ map Alloc [n..<n + k]\<rparr>"
  define st3 where "st3 = st2\<lparr>trace := trace st2 @ [Done Landmark]\<rparr>"
  define st4 where "st4 = st\<lparr>nextId := n + k,
      live := filter (\<lambda>i. i \<notin> {n..<n + k}) (live st),
      trace := trace st @ [Done Detector] @ map Alloc [n..<n + k] @ [Done Landmark]
         @ map Dispose [n..<n + k]\<rparr>"
  have s3: "run_stage Landmark (detectLandmarks env (crops input n (map OfDetection ds))) st2
      = (Fulfilled lms, st3)"
    using lm by (simp add: run_stage_def st3_def n_def)
  have keep: "filter (\<lambda>i. i \<notin> {n..<n + k}) (live st @ [n..<n + k])
      = filter (\<lambda>i. i \<notin> {n..<n + k}) (live st)"
    by (rule drop_fresh)
  have s4: "disposeAll (crops input n (map OfDetection ds)) st3 = st4"
    using disposeAll_crops [of input n "map OfDetection ds" st3] keep
    by (simp add: st4_def st3_def st2_def k_def)
  have al: "alignAll env ds 0 lms = Inr (alignedBoxes env ds lms)"
    using alignAll_eq [of 0 lms ds env] len by (simp add: alignedBoxes_def)
  have s5: "extractFaceTensors env input (map OfRect (alignedBoxes env ds lms)) st4
      = (Fulfilled (crops input (n + k) (map OfRect (alignedBoxes env ds lms))),
         st\<lparr>nextId := n + k + k,
            live := filter (\<lambda>i. i \<notin> {n..<n + k}) (live st) @ [n + k..<n + k + k],
            trace := trace st @ [Done Detector] @ map Alloc [n..<n + k] @ [Done Landmark]
               @ map Dispose [n..<n + k] @ map Alloc [n + k..<n + k + k]\<rparr>)"
    using extractFaceTensors_ok [OF crop2, of st4]
    by (simp add: st4_def length_alignedBoxes len k_def)
  have "allFaces env input minConfidence st =
     await (run_stage Landmark (detectLandmarks env (crops input n (map OfDetection ds))) st2)
       (\<lambda>faceLandmarksByFace st3.
     (let st4 = disposeAll (crops input n (map OfDetection ds)) st3 in
      case alignAll env ds 0 faceLandmarksByFace of
        Inl e \<Rightarrow> (Rejected e, st4)
      | Inr alignedFaceBoxes \<Rightarrow>
     await (extractFaceTensors env input (map OfRect alignedFaceBoxes) st4)
       (\<lambda>alignedFaceTensors st5.
     await (run_stage Recognizer
              (promise_all (map (computeFaceDescriptor env) alignedFaceTensors)) st5)
       (\<lambda>descriptors st6.
     (let st7 = disposeAll alignedFaceTensors st6 in
      case assemble env faceLandmarksByFace descriptors 0 ds of
        Inl e \<Rightarrow> (Rejected e, st7)
      | Inr result \<Rightarrow> (Fulfilled result, st7))))))"
    unfolding n_def k_def st2_def by (rule allFaces_until_landmarks [OF det crop1])
  also have "\<dots> =
     await (run_stage Recognizer
              (promise_all (map (computeFaceDescriptor env)
                 (crops input (n + k) (map OfRect (alignedBoxes env ds lms)))))
              (st\<lparr>nextId := n + k + k,
            live := filter (\<lambda>i. i \<notin> {n..<n + k}) (live st) @ [n + k..<n + k + k],
                  trace := trace st @ [Done Detector] @ map Alloc [n..<n + k] @ [Done Landmark]
                     @ map Dispose [n..<n + k] @ map Alloc [n + k..<n + k + k]\<rparr>))
       (\<lambda>descriptors st6.
     (let st7 = disposeAll (crops input (n + k) (map OfRect (alignedBoxes env ds lms))) st6 in
      case assemble env lms descriptors 0 ds of
        Inl e \<Rightarrow> (Rejected e, st7)
      | Inr result \<Rightarrow> (Fulfilled result, st7)))"
    by (simp only: s3 await_def prod.case promise.case Let_def s4 al sum.case s5)
  finally show ?thesis
    unfolding n_def k_def .
qed

lemma allFaces_success:
  assumes ok: "stages_succeed env input minConfidence st ds lms descs"
  shows "allFaces env input minConfidence st =
     (Fulfilled (descriptions env ds lms descs),
      st\<lparr>nextId := nextId st + length ds + length ds,
         live := filter (\<lambda>i. i \<notin> {nextId st + length ds..<nextId st + length ds + length ds})
                   (filter (\<lambda>i. i \<notin> {nextId st..<nextId st + length ds}) (live st)),
         trace := trace st @ [Done Detector]
            @ map Alloc [nextId st..<nextId st + length ds]
            @ [Done Landmark]
            @ map Dispose [nextId st..<nextId st + length ds]
            @ map Alloc [nextId st + length ds..<nextId st + length ds + length ds]
            @ [Done Recognizer]
            @ map Dispose [nextId st + length ds..<nextId st + length ds + length ds]\<rparr>)"
proof -
  define n where "n = nextId st"
  define k where "k = length ds"
  define aligned where "aligned = crops input (n + k) (map OfRect (alignedBoxes env ds lms))"
  define st5 where "st5 = st\<lparr>nextId := n + k + k,
      live := filter (\<lambda>i. i \<notin> {n..<n + k}) (live st) @ [n + k..<n + k + k],
      trace := trace st @ [Done Detector] @ map Alloc [n..<n + k] @ [Done Landmark]
         @ map Dispose [n..<n + k] @ map Alloc [n + k..<n + k + k]\<rparr>"
  define st6 where "st6 = st5\<lparr>trace := trace st5 @ [Done Recognizer]\<rparr>"
  from ok have det: "locateFaces env input minConfidence None = Fulfilled ds"
    and crop1: "cropOutcome env input (map OfDetection ds) = Fulfilled ()"
    and lm: "detectLandmarks env (crops input (nextId st) (map OfDetection ds)) = Fulfilled lms"
    and len: "length lms = length ds"
    and crop2: "cropOutcome env input (map OfRect (alignedBoxes env ds lms)) = Fulfilled ()"
    and recog: "map (computeFaceDescriptor env) aligned = map Fulfilled descs"
    by (simp_all add: stages_succeed_def aligned_def n_def k_def)
  have ldescs: "length descs = length ds"
    using arg_cong [OF recog, of length]
    by (simp add: aligned_def length_crops length_alignedBoxes len)
  have s6: "run_stage Recognizer (promise_all (map (computeFaceDescriptor env) aligned)) st5
      = (Fulfilled descs, st6)"
    by (simp add: recog run_stage_def st6_def promise_all_Fulfilled)
  have keep: "filter (\<lambda>i. i \<notin> {n + k..<n + k + k})
        (filter (\<lambda>i. i \<notin> {n..<n + k}) (live st) @ [n + k..<n + k + k])
      = filter (\<lambda>i. i \<notin> {n + k..<n + k + k}) (filter (\<lambda>i. i \<notin> {n..<n + k}) (live st))"
    by (rule drop_fresh)
  have s7: "disposeAll aligned st6 =
      st\<lparr>nextId := n + k + k,
         live := filter (\<lambda>i. i \<notin> {n + k..<n + k + k})
                   (filter (\<lambda>i. i \<notin> {n..<n + k}) (live st)),
         trace := trace st @ [Done Detector] @ map Alloc [n..<n + k] @ [Done Landmark]
            @ map Dispose [n..<n + k] @ map Alloc [n + k..<n + k + k] @ [Done Recognizer]
            @ map Dispose [n + k..<n + k + k]\<rparr>"
    using disposeAll_crops [of input "n + k" "map OfRect (alignedBoxes env ds lms)" st6] keep
    by (simp add: aligned_def st6_def st5_def length_alignedBoxes len k_def)
  have asm: "assemble env lms descs 0 ds = Inr (descriptions env ds lms descs)"
    using assemble_eq [of 0 ds lms descs env] len ldescs by (simp add: descriptions_def)
  have "allFaces env input minConfidence st =
     await (run_stage Recognizer (promise_all (map (computeFaceDescriptor env) aligned)) st5)
       (\<lambda>descriptors st6.
     (let st7 = disposeAll aligned st6 in
      case assemble env lms descriptors 0 ds of
        Inl e \<Rightarrow> (Rejected e, st7)
      | Inr result \<Rightarrow> (Fulfilled result, st7)))"
    unfolding aligned_def st5_def n_def k_def
    by (rule allFaces_until_descriptors [OF det crop1 lm len crop2])
  also have "\<dots> = (Fulfilled (descriptions env ds lms descs),
      st\<lparr>nextId := n + k + k,
         live := filter (\<lambda>i. i \<notin> {n + k..<n + k + k})
                   (filter (\<lambda>i. i \<notin> {n..<n + k}) (live st)),
         trace := trace st @ [Done Detector] @ map Alloc [n..<n + k] @ [Done Landmark]
            @ map Dispose [n..<n + k] @ map Alloc [n + k..<n + k + k] @ [Done Recognizer]
            @ map Dispose [n + k..<n + k + k]\<rparr>)"
    by (simp only: s6 await_def prod.case promise.case Let_def s7 asm sum.case)
  finally show ?thesis
    unfolding n_def k_def .
qed

lemma allFaces_landmarks_rejected:
  assumes det: "locateFaces env input minConfidence None = Fulfilled ds"
    and crop1: "cropOutcome env input (map OfDetection ds) = Fulfilled ()"
    and lm: "detectLandmarks env (crops input (nextId st) (map OfDetection ds)) = Rejected e"
  shows "allFaces env input minConfidence st =
     (Rejected e,
      st\<lparr>nextId := nextId st + length ds,
         live := live st @ [nextId st..<nextId st + length ds],
         trace := trace st @ [Done Detector] @ map Alloc [nextId st..<nextId st + length ds]\<rparr>)"
  unfolding allFaces_until_landmarks [OF det crop1] lm
  by (simp add: run_stage_def await_def)

lemma allFaces_descriptors_rejected:
  assumes det: "locateFaces env input minConfidence None = Fulfilled ds"
    and crop1: "cropOutcome env input (map OfDetection ds) = Fulfilled ()"
    and lm: "detectLandmarks env (crops input (nextId st) (map OfDetection ds)) = Fulfilled lms"
    and len: "length lms = length ds"
    and crop2: "cropOutcome env input (map OfRect (alignedBoxes env ds lms)) = Fulfilled ()"
    and recog: "promise_all (map (computeFaceDescriptor env)
                 (crops input (nextId st + length ds) (map OfRect (alignedBoxes env ds lms))))
               = Rejected e"
    and older: "\<forall>i\<in>set (live st). i < nextId st"
  shows "allFaces env input minConfidence st =
     (Rejected e,
      st\<lparr>nextId := nextId st + length ds + length ds,
         live := live st @ [nextId st + length ds..<nextId st + length ds + length ds],
         trace := trace st @ [Done Detector]
            @ map Alloc [nextId st..<nextId st + length ds]
            @ [Done Landmark]
            @ map Dispose [nextId st..<nextId st + length ds]
            @ map Alloc [nextId st + length ds..<nextId st + length ds + length ds]\<rparr>)"
proof -
  have "filter (\<lambda>i. i \<notin> {nextId st..<nextId st + length ds}) (live st) = live st"
    using older by (rule keep_older)
  then show ?thesis
    unfolding allFaces_until_descriptors [OF det crop1 lm len crop2] recog
    by (simp add: run_stage_def await_def)
qed

lemma count_list_events:
  "count_list (map Alloc xs) (Alloc t) = count_list xs t"
  "count_list (map Dispose xs) (Dispose t) = count_list xs t"
  "count_list (map Alloc xs) (Dispose t) = 0"
  "count_list (map Dispose xs) (Alloc t) = 0"
  by (induction xs) simp_all

lemma count_list_upt: "count_list [a..<b] t = (if a \<le> t \<and> t < b then 1 else 0)"
  by (induction b) auto


lemma alignAll_Inr:
  "alignAll env ds i rest = Inr boxes \<Longrightarrow> rest \<noteq> [] \<Longrightarrow> i + length rest \<le> length ds"
proof (induction rest arbitrary: i boxes)
  case Nil
  then show ?case by simp
next
  case (Cons l rest)
  from Cons.prems(1) have i: "i < length ds"
    by (simp split: if_splits)
  show ?case
  proof (cases rest)
    case Nil
    with i show ?thesis by simp
  next
    case (Cons l' rest')
    from Cons.prems(1) i obtain bs where "alignAll env ds (Suc i) rest = Inr bs"
      by (auto split: sum.splits)
    from Cons.IH [OF this] Cons show ?thesis by simp
  qed
qed

lemma assemble_Inr:
  "assemble env lms descs i rest = Inr fs \<Longrightarrow> rest \<noteq> [] \<Longrightarrow> i + length rest \<le> length lms"
proof (induction rest arbitrary: i fs)
  case Nil
  then show ?case by simp
next
  case (Cons d rest)
  from Cons.prems(1) have i: "i < length lms"
    by (simp split: if_splits)
  show ?case
  proof (cases rest)
    case Nil
    with i show ?thesis by simp
  next
    case (Cons d' rest')
    from Cons.prems(1) i obtain gs where "assemble env lms descs (Suc i) rest = Inr gs"
      by (auto split: sum.splits)
    from Cons.IH [OF this] Cons show ?thesis by simp
  qed
qed

lemma promise_all_Fulfilled_only:
  "promise_all ps = Fulfilled vs \<Longrightarrow> ps = map Fulfilled vs"
  by (induction ps arbitrary: vs) (auto split: promise.splits)

lemma allFaces_Fulfilled_stages:
  assumes "allFaces env input minConfidence st = (Fulfilled res, st')"
  shows "\<exists>ds lms descs. stages_succeed env input minConfidence st ds lms descs"
proof -
  obtain ds where det: "locateFaces env input minConfidence None = Fulfilled ds"
    using assms
    by (cases "locateFaces env input minConfidence None")
      (simp_all add: allFaces_def run_stage_def await_def)
  have crop1: "cropOutcome env input (map OfDetection ds) = Fulfilled ()"
    using assms
    by (cases "cropOutcome env input (map OfDetection ds)")
      (simp_all add: allFaces_def run_stage_def await_def det extractFaceTensors_def)
  note step1 = allFaces_until_landmarks [OF det crop1, of st]
  obtain lms where lm:
    "detectLandmarks env (crops input (nextId st) (map OfDetection ds)) = Fulfilled lms"
    using assms unfolding step1
    by (cases "detectLandmarks env (crops input (nextId st) (map OfDetection ds))")
      (simp_all add: run_stage_def await_def)
  obtain boxes where al: "alignAll env ds 0 lms = Inr boxes"
    using assms unfolding step1 lm
    by (cases "alignAll env ds 0 lms") (simp_all add: run_stage_def await_def)
  have le1: "length lms \<le> length ds"
    using alignAll_Inr [OF al] by (cases lms) simp_all
  have boxes: "boxes = alignedBoxes env ds lms"
    using alignAll_eq [of 0 lms ds env] le1 al by (simp add: alignedBoxes_def)
  have crop2: "cropOutcome env input (map OfRect (alignedBoxes env ds lms)) = Fulfilled ()"
    using assms unfolding step1 lm
    by (cases "cropOutcome env input (map OfRect (alignedBoxes env ds lms))")
      (simp_all add: run_stage_def await_def al boxes extractFaceTensors_def)
  obtain descs where recog:
    "promise_all (map (computeFaceDescriptor env)
       (crops input (nextId st + length ds) (map OfRect (alignedBoxes env ds lms))))
     = Fulfilled descs"
    using assms unfolding step1 lm
    by (cases "promise_all (map (computeFaceDescriptor env)
         (crops input (nextId st + length ds) (map OfRect (alignedBoxes env ds lms))))")
      (simp_all add: run_stage_def await_def al boxes extractFaceTensors_def crop2 cropAll_eq
        disposeAll_crops)
  obtain fs where asm: "assemble env lms descs 0 ds = Inr fs"
    using assms unfolding step1 lm
    by (cases "assemble env lms descs 0 ds")
      (simp_all add: run_stage_def await_def al boxes extractFaceTensors_def crop2 cropAll_eq
        disposeAll_crops recog)
  have le2: "length ds \<le> length lms"
    using assemble_Inr [OF asm] by (cases ds) simp_all
  from det crop1 lm le1 le2 crop2 promise_all_Fulfilled_only [OF recog]
  show ?thesis
    unfolding stages_succeed_def by (intro exI [of _ ds] exI [of _ lms] exI [of _ descs]) simp
qed


section \<open>Claims about allFacesFactory\<close>

lemma stages_example:
  "stages_succeed nets_example photo_example (1 / 2) engine_example
     [detection_a, detection_b]
     [FaceLandmarks [(3, 0)], FaceLandmarks [(4, 0)]]
     [[6], [2]]"
  by (simp add: stages_succeed_def nets_example_def engine_example_def crops_def
      alignedBoxes_def detection_a_def detection_b_def)

lemma descriptions_example:
  "descriptions nets_example [detection_a, detection_b]
     [FaceLandmarks [(3, 0)], FaceLandmarks [(4, 0)]] [[6], [2]] =
   [FullFaceDescription detection_a (FaceLandmarks [(8, 6)]) (Some [6]),
    FullFaceDescription detection_b (FaceLandmarks [(5, 2)]) (Some [2])]"
  by (simp add: descriptions_def nets_example_def detection_a_def detection_b_def)

lemma allFaces_example:
  "allFaces nets_example photo_example (1 / 2) engine_example =
     (Fulfilled
        [FullFaceDescription detection_a (FaceLandmarks [(8, 6)]) (Some [6]),
         FullFaceDescription detection_b (FaceLandmarks [(5, 2)]) (Some [2])],
      \<lparr>nextId = 7, live = [1],
       trace = [Done Detector, Alloc 3, Alloc 4, Done Landmark, Dispose 3, Dispose 4,
                Alloc 5, Alloc 6, Done Recognizer, Dispose 5, Dispose 6]\<rparr>)"
  unfolding allFaces_success [OF stages_example] descriptions_example
  by (simp add: engine_example_def)

text \<open>
  C1.  When every stage succeeds, the pipeline is fulfilled with a list that has one
  description per detection, in the detector's order: the \<open>i\<close>-th description holds
  detection \<open>i\<close>, the \<open>i\<close>-th landmark set (the one the landmark stage returned for the crop
  of detection \<open>i\<close>) shifted by the box of detection \<open>i\<close>, and the descriptor that the
  recognizer computed from the \<open>i\<close>-th aligned crop, which was cut at the box aligned from
  landmark set \<open>i\<close> and the box of detection \<open>i\<close>.
\<close>

theorem allFaces_one_description_per_detection:
  assumes "stages_succeed env input minConfidence st ds lms descs"
  shows "fst (allFaces env input minConfidence st) = Fulfilled (descriptions env ds lms descs)
    \<and> length (descriptions env ds lms descs) = length ds
    \<and> (\<forall>i<length ds.
          descriptions env ds lms descs ! i =
            FullFaceDescription (ds ! i) (shiftByPoint env (lms ! i) (getBox (ds ! i)))
              (Some (descs ! i))
          \<and> crops input (nextId st) (map OfDetection ds) ! i =
              FaceTensor (nextId st + i) input (OfDetection (ds ! i))
          \<and> computeFaceDescriptor env
              (FaceTensor (nextId st + length ds + i) input
                 (OfRect (align env (lms ! i) (getBox (ds ! i)))))
            = Fulfilled (descs ! i))"
proof (intro conjI allI impI)
  show "fst (allFaces env input minConfidence st) = Fulfilled (descriptions env ds lms descs)"
    by (simp add: allFaces_success [OF assms])
  show "length (descriptions env ds lms descs) = length ds"
    by (rule length_descriptions)
next
  fix i
  assume i: "i < length ds"
  from assms have len: "length lms = length ds"
    and recog: "map (computeFaceDescriptor env)
            (crops input (nextId st + length ds) (map OfRect (alignedBoxes env ds lms)))
          = map Fulfilled descs"
    by (simp_all add: stages_succeed_def)
  show "descriptions env ds lms descs ! i =
      FullFaceDescription (ds ! i) (shiftByPoint env (lms ! i) (getBox (ds ! i)))
        (Some (descs ! i))"
    using i by (rule nth_descriptions)
  show "crops input (nextId st) (map OfDetection ds) ! i =
      FaceTensor (nextId st + i) input (OfDetection (ds ! i))"
    using i by (simp add: nth_crops)
  have ldescs: "length descs = length ds"
    using arg_cong [OF recog, of length] by (simp add: length_crops length_alignedBoxes len)
  have "map (computeFaceDescriptor env)
            (crops input (nextId st + length ds) (map OfRect (alignedBoxes env ds lms))) ! i
          = map Fulfilled descs ! i"
    by (simp only: recog)
  then show "computeFaceDescriptor env
      (FaceTensor (nextId st + length ds + i) input
         (OfRect (align env (lms ! i) (getBox (ds ! i)))))
    = Fulfilled (descs ! i)"
    using i len ldescs
    by (simp add: length_crops length_alignedBoxes nth_crops nth_alignedBoxes)
qed

text \<open>Two faces, with the example networks.\<close>

theorem allFaces_one_description_per_detection_witness:
  "stages_succeed nets_example photo_example (1 / 2) engine_example
     [detection_a, detection_b] [FaceLandmarks [(3, 0)], FaceLandmarks [(4, 0)]] [[6], [2]]
   \<and> fst (allFaces nets_example photo_example (1 / 2) engine_example) =
       Fulfilled
        [FullFaceDescription detection_a (FaceLandmarks [(8, 6)]) (Some [6]),
         FullFaceDescription detection_b (FaceLandmarks [(5, 2)]) (Some [2])]"
  using allFaces_one_description_per_detection [OF stages_example] stages_example
  by (simp only: descriptions_example simp_thms)

text \<open>
  C8.  After every fulfilled call, on an engine whose live handles are all older than the
  next free one, the log has grown by exactly: detector done, the raw crops allocated
  (one per returned description), landmark stage done, the raw crops released, the
  aligned crops allocated, recognizer done, the aligned crops released.  The live handles
  are those from before the call, and each crop handle of this call was allocated exactly
  once and released exactly once.
\<close>

theorem allFaces_releases_every_crop:
  assumes "allFaces env input minConfidence st = (Fulfilled res, st')"
    and "\<forall>i\<in>set (live st). i < nextId st"
  shows "st' =
      st\<lparr>nextId := nextId st + length res + length res,
         trace := trace st @ [Done Detector]
            @ map Alloc [nextId st..<nextId st + length res]
            @ [Done Landmark]
            @ map Dispose [nextId st..<nextId st + length res]
            @ map Alloc [nextId st + length res..<nextId st + length res + length res]
            @ [Done Recognizer]
            @ map Dispose [nextId st + length res..<nextId st + length res + length res]\<rparr>
    \<and> live st' = live st
    \<and> (\<forall>t. count_list (drop (length (trace st)) (trace st')) (Alloc t)
             = (if nextId st \<le> t \<and> t < nextId st + length res + length res then 1 else 0)
           \<and> count_list (drop (length (trace st)) (trace st')) (Dispose t)
             = (if nextId st \<le> t \<and> t < nextId st + length res + length res then 1 else 0))"
proof -
  from allFaces_Fulfilled_stages [OF assms(1)]
  obtain ds lms descs where ok: "stages_succeed env input minConfidence st ds lms descs"
    by blast
  have 1: "filter (\<lambda>i. i \<notin> {nextId st..<nextId st + length ds}) (live st) = live st"
    using assms(2) by (rule keep_older)
  have "\<forall>i\<in>set (live st). i < nextId st + length ds"
    using assms(2) by auto
  then have 2: "filter (\<lambda>i. i \<notin> {nextId st + length ds..<nextId st + length ds + length ds})
      (live st) = live st"
    by (rule keep_older)
  from assms(1) have res: "res = descriptions env ds lms descs"
    unfolding allFaces_success [OF ok] by simp
  have len: "length res = length ds"
    unfolding res by (rule length_descriptions)
  from assms(1) have run: "st' =
      st\<lparr>nextId := nextId st + length res + length res,
         trace := trace st @ [Done Detector]
            @ map Alloc [nextId st..<nextId st + length res]
            @ [Done Landmark]
            @ map Dispose [nextId st..<nextId st + length res]
            @ map Alloc [nextId st + length res..<nextId st + length res + length res]
            @ [Done Recognizer]
            @ map Dispose [nextId st + length res..<nextId st + length res + length res]\<rparr>"
    unfolding allFaces_success [OF ok] 1 2 len by simp
  show ?thesis
    unfolding run by (auto simp: count_list_events count_list_upt)
qed

text \<open>
  The engine after the example call: the only live handle is the one from before, and
  crop 4 was released once.
\<close>

theorem allFaces_releases_every_crop_witness:
  "allFaces nets_example photo_example (1 / 2) engine_example =
     (Fulfilled
        [FullFaceDescription detection_a (FaceLandmarks [(8, 6)]) (Some [6]),
         FullFaceDescription detection_b (FaceLandmarks [(5, 2)]) (Some [2])],
      \<lparr>nextId = 7, live = [1],
       trace = [Done Detector, Alloc 3, Alloc 4, Done Landmark, Dispose 3, Dispose 4,
                Alloc 5, Alloc 6, Done Recognizer, Dispose 5, Dispose 6]\<rparr>)
   \<and> live engine_example = [1] \<and> nextId engine_example = 3
   \<and> \<lparr>nextId = 7, live = [1],
       trace = [Done Detector, Alloc 3, Alloc 4, Done Landmark, Dispose 3, Dispose 4,
                Alloc 5, Alloc 6, Done Recognizer, Dispose 5, Dispose 6]\<rparr>
     = engine_example\<lparr>nextId := 7,
         trace := [Done Detector] @ map Alloc [3..<5] @ [Done Landmark] @ map Dispose [3..<5]
            @ map Alloc [5..<7] @ [Done Recognizer] @ map Dispose [5..<7]\<rparr>
   \<and> count_list [Done Detector, Alloc 3, Alloc 4, Done Landmark, Dispose 3, Dispose 4,
                  Alloc 5, Alloc 6, Done Recognizer, Dispose 5, Dispose 6] (Dispose 4) = 1"
proof -
  have older: "\<forall>i\<in>set (live engine_example). i < nextId engine_example"
    by (simp add: engine_example_def)
  note t = allFaces_releases_every_crop [OF allFaces_example older]
  from t [THEN conjunct1]
  have c1: "\<lparr>nextId = 7, live = [1],
       trace = [Done Detector, Alloc 3, Alloc 4, Done Landmark, Dispose 3, Dispose 4,
                Alloc 5, Alloc 6, Done Recognizer, Dispose 5, Dispose 6]\<rparr>
     = engine_example\<lparr>nextId := 7,
         trace := [Done Detector] @ map Alloc [3..<5] @ [Done Landmark] @ map Dispose [3..<5]
            @ map Alloc [5..<7] @ [Done Recognizer] @ map Dispose [5..<7]\<rparr>"
    by (simp add: engine_example_def)
  from t [THEN conjunct2, THEN conjunct2, THEN spec, of 4, THEN conjunct2]
  have c2: "count_list [Done Detector, Alloc 3, Alloc 4, Done Landmark, Dispose 3, Dispose 4,
                  Alloc 5, Alloc 6, Done Recognizer, Dispose 5, Dispose 6] (Dispose 4) = 1"
    by (simp add: engine_example_def)
  from allFaces_example c1 c2 show ?thesis
    by (simp add: engine_example_def)
qed

text \<open>
  C9.  If the landmark stage is rejected after the raw crops are extracted, the pipeline
  is rejected with the same error, every raw crop is still live and nothing was
  released.  If a recognizer call is rejected, the raw crops have been released, but every
  aligned crop is still live and none of them was released.
\<close>

theorem allFaces_keeps_crops_when_a_stage_fails:
  "(locateFaces env input minConfidence None = Fulfilled ds
      \<and> cropOutcome env input (map OfDetection ds) = Fulfilled ()
      \<and> detectLandmarks env (crops input (nextId st) (map OfDetection ds)) = Rejected e
    \<longrightarrow> allFaces env input minConfidence st =
          (Rejected e,
           st\<lparr>nextId := nextId st + length ds,
              live := live st @ [nextId st..<nextId st + length ds],
              trace := trace st @ [Done Detector]
                 @ map Alloc [nextId st..<nextId st + length ds]\<rparr>))
   \<and> (locateFaces env input minConfidence None = Fulfilled ds
      \<and> cropOutcome env input (map OfDetection ds) = Fulfilled ()
      \<and> detectLandmarks env (crops input (nextId st) (map OfDetection ds)) = Fulfilled lms
      \<and> length lms = length ds
      \<and> cropOutcome env input (map OfRect (alignedBoxes env ds lms)) = Fulfilled ()
      \<and> promise_all (map (computeFaceDescriptor env)
            (crops input (nextId st + length ds) (map OfRect (alignedBoxes env ds lms))))
          = Rejected e
      \<and> (\<forall>i\<in>set (live st). i < nextId st)
    \<longrightarrow> allFaces env input minConfidence st =
          (Rejected e,
           st\<lparr>nextId := nextId st + length ds + length ds,
              live := live st @ [nextId st + length ds..<nextId st + length ds + length ds],
              trace := trace st @ [Done Detector]
                 @ map Alloc [nextId st..<nextId st + length ds]
                 @ [Done Landmark]
                 @ map Dispose [nextId st..<nextId st + length ds]
                 @ map Alloc [nextId st + length ds..<nextId st + length ds + length ds]\<rparr>))"
  by (simp add: allFaces_landmarks_rejected allFaces_descriptors_rejected)

text \<open>
  Two such executions: the landmark stage throws with crops 3 and 4 allocated, and the
  second recognizer call throws with crops 5 and 6 allocated.
\<close>

theorem allFaces_keeps_crops_when_a_stage_fails_witness:
  "allFaces (nets_example\<lparr>detectLandmarks := (\<lambda>ts. Rejected (Thrown 7))\<rparr>)
       photo_example (1 / 2) engine_example =
     (Rejected (Thrown 7),
      \<lparr>nextId = 5, live = [1, 3, 4], trace = [Done Detector, Alloc 3, Alloc 4]\<rparr>)
   \<and> allFaces (nets_example\<lparr>computeFaceDescriptor :=
           (\<lambda>t. if tensorId t = 6 then Rejected (Thrown 8) else Fulfilled [])\<rparr>)
       photo_example (1 / 2) engine_example =
     (Rejected (Thrown 8),
      \<lparr>nextId = 7, live = [1, 5, 6],
       trace = [Done Detector, Alloc 3, Alloc 4, Done Landmark, Dispose 3, Dispose 4,
                Alloc 5, Alloc 6]\<rparr>)"
proof -
  let ?env1 = "nets_example\<lparr>detectLandmarks := (\<lambda>ts. Rejected (Thrown 7))\<rparr>"
  let ?env2 = "nets_example\<lparr>computeFaceDescriptor :=
           (\<lambda>t. if tensorId t = 6 then Rejected (Thrown 8) else Fulfilled [])\<rparr>"
  have h1: "locateFaces ?env1 photo_example (1 / 2) None = Fulfilled [detection_a, detection_b]
      \<and> cropOutcome ?env1 photo_example (map OfDetection [detection_a, detection_b]) = Fulfilled ()
      \<and> detectLandmarks ?env1
           (crops photo_example (nextId engine_example)
              (map OfDetection [detection_a, detection_b])) = Rejected (Thrown 7)"
    by (simp add: nets_example_def)
  have h2: "locateFaces ?env2 photo_example (1 / 2) None = Fulfilled [detection_a, detection_b]
      \<and> cropOutcome ?env2 photo_example (map OfDetection [detection_a, detection_b]) = Fulfilled ()
      \<and> detectLandmarks ?env2
           (crops photo_example (nextId engine_example)
              (map OfDetection [detection_a, detection_b]))
          = Fulfilled [FaceLandmarks [(3, 0)], FaceLandmarks [(4, 0)]]
      \<and> length [FaceLandmarks [(3, 0)], FaceLandmarks [(4, 0)]]
          = length [detection_a, detection_b]
      \<and> cropOutcome ?env2 photo_example
           (map OfRect (alignedBoxes ?env2 [detection_a, detection_b]
              [FaceLandmarks [(3, 0)], FaceLandmarks [(4, 0)]])) = Fulfilled ()
      \<and> promise_all (map (computeFaceDescriptor ?env2)
            (crops photo_example (nextId engine_example + length [detection_a, detection_b])
               (map OfRect (alignedBoxes ?env2 [detection_a, detection_b]
                  [FaceLandmarks [(3, 0)], FaceLandmarks [(4, 0)]]))))
          = Rejected (Thrown 8)
      \<and> (\<forall>i\<in>set (live engine_example). i < nextId engine_example)"
    by (simp add: nets_example_def engine_example_def crops_def alignedBoxes_def)
  note t = allFaces_keeps_crops_when_a_stage_fails
  from t [where env = "?env1" and input = photo_example and minConfidence = "1 / 2"
            and st = engine_example and ds = "[detection_a, detection_b]"
            and e = "Thrown 7", THEN conjunct1, THEN mp, OF h1]
  have c1: "allFaces ?env1 photo_example (1 / 2) engine_example =
     (Rejected (Thrown 7),
      \<lparr>nextId = 5, live = [1, 3, 4], trace = [Done Detector, Alloc 3, Alloc 4]\<rparr>)"
    by (simp add: engine_example_def)
  from t [where env = "?env2" and input = photo_example and minConfidence = "1 / 2"
            and st = engine_example and ds = "[detection_a, detection_b]"
            and lms = "[FaceLandmarks [(3, 0)], FaceLandmarks [(4, 0)]]"
            and e = "Thrown 8", THEN conjunct2, THEN mp, OF h2]
  have c2: "allFaces ?env2 photo_example (1 / 2) engine_example =
     (Rejected (Thrown 8),
      \<lparr>nextId = 7, live = [1, 5, 6],
       trace = [Done Detector, Alloc 3, Alloc 4, Done Landmark, Dispose 3, Dispose 4,
                Alloc 5, Alloc 6]\<rparr>)"
    by (simp add: engine_example_def)
  from c1 c2 show ?thesis by simp
qed

text \<open>
  C2, as stated, fails.  Called with \<open>maxResults = 1\<close> on a photo with two faces and a
  detector that would return one face if it were given \<open>maxResults = 1\<close>, the pipeline returns two
  descriptions: the function has no such parameter and calls the detector without it.
\<close>

theorem allFaces_ignores_maxResults:
  "locateFaces nets_example photo_example (1 / 2) (Some 1) = Fulfilled [detection_a]
   \<and> fst (allFaces_call3 nets_example photo_example (1 / 2) (Some 1) engine_example) =
       Fulfilled
        [FullFaceDescription detection_a (FaceLandmarks [(8, 6)]) (Some [6]),
         FullFaceDescription detection_b (FaceLandmarks [(5, 2)]) (Some [2])]
   \<and> fst (allFaces_call3 nets_example photo_example (1 / 2) (Some 1) engine_example) \<noteq>
       Fulfilled [FullFaceDescription detection_a (FaceLandmarks [(8, 6)]) (Some [6])]"
proof -
  have "locateFaces nets_example photo_example (1 / 2) (Some 1) = Fulfilled [detection_a]"
    by (simp add: nets_example_def)
  then show ?thesis
    by (simp add: allFaces_call3_def allFaces_example)
qed

text \<open>
  C2, amended.  Whatever third argument the pipeline is called with, the detector is
  called with the input and \<open>minConfidence\<close> only: when the call is fulfilled, the
  detections of the returned list are exactly the list that the detector returns for the
  input and \<open>minConfidence\<close> without \<open>maxResults\<close>, in the detector's order and untruncated,
  and any other third argument gives the same result.
\<close>

theorem allFaces_returns_detector_output:
  assumes "allFaces_call3 env input minConfidence maxResults st = (Fulfilled res, st')"
  shows "locateFaces env input minConfidence None = Fulfilled (map ffd_detection res)
    \<and> allFaces_call3 env input minConfidence other st = (Fulfilled res, st')"
proof -
  from assms have run: "allFaces env input minConfidence st = (Fulfilled res, st')"
    by (simp add: allFaces_call3_def)
  from allFaces_Fulfilled_stages [OF run]
  obtain ds lms descs where ok: "stages_succeed env input minConfidence st ds lms descs"
    by blast
  from run have "res = descriptions env ds lms descs"
    unfolding allFaces_success [OF ok] by simp
  then have "map ffd_detection res = ds"
    by (simp add: detections_of_descriptions)
  moreover from ok have "locateFaces env input minConfidence None = Fulfilled ds"
    by (simp add: stages_succeed_def)
  ultimately show ?thesis
    using run by (simp add: allFaces_call3_def)
qed

text \<open>The example call with \<open>maxResults = 1\<close>: both detections come back, as without it.\<close>

theorem allFaces_returns_detector_output_witness:
  "allFaces_call3 nets_example photo_example (1 / 2) (Some 1) engine_example =
     (Fulfilled
        [FullFaceDescription detection_a (FaceLandmarks [(8, 6)]) (Some [6]),
         FullFaceDescription detection_b (FaceLandmarks [(5, 2)]) (Some [2])],
      \<lparr>nextId = 7, live = [1],
       trace = [Done Detector, Alloc 3, Alloc 4, Done Landmark, Dispose 3, Dispose 4,
                Alloc 5, Alloc 6, Done Recognizer, Dispose 5, Dispose 6]\<rparr>)
   \<and> locateFaces nets_example photo_example (1 / 2) None = Fulfilled [detection_a, detection_b]
   \<and> allFaces_call3 nets_example photo_example (1 / 2) None engine_example =
       allFaces_call3 nets_example photo_example (1 / 2) (Some 1) engine_example"
proof -
  have run: "allFaces_call3 nets_example photo_example (1 / 2) (Some 1) engine_example =
     (Fulfilled
        [FullFaceDescription detection_a (FaceLandmarks [(8, 6)]) (Some [6]),
         FullFaceDescription detection_b (FaceLandmarks [(5, 2)]) (Some [2])],
      \<lparr>nextId = 7, live = [1],
       trace = [Done Detector, Alloc 3, Alloc 4, Done Landmark, Dispose 3, Dispose 4,
                Alloc 5, Alloc 6, Done Recognizer, Dispose 5, Dispose 6]\<rparr>)"
    by (simp add: allFaces_call3_def allFaces_example)
  from allFaces_returns_detector_output [OF run, of None] run
  show ?thesis by simp
qed

end
